theory Spec2Isabelle
  imports Main
begin

section \<open>Voice recorder server: a model of app.py\<close>

text \<open>
  The server of app.py stores an uploaded recording in a scratch directory, runs the
  external transcoder on it, removes the stored input and answers with a reference to the
  converted file; a second route serves converted files and starts a thread that removes
  the file five minutes later.

  The model is sequential. The state is the set of regular files (a map from path to
  content), the list of deletion threads that were started and still sleep, and the lines
  written to standard output. Everything the program does not decide itself comes from an
  environment record: the two runs of the transcoder, the random identifier, the clock and
  the texts the Python runtime produces for exceptions, floats and dictionaries.

  The file system is an ideal one: an operation fails only for a reason the state shows
  (the file is absent, the path is the directory). The scratch directory is created when
  the module is loaded (line 17) and nothing in the program removes it, so it exists
  throughout. Paths are POSIX paths; the working directory is the application's root.
\<close>

subsection \<open>Strings\<close>

type_synonym bytes = string

text \<open>\<^verbatim>\<open>str.lower()\<close> on code points below 256: the letters A-Z and the capital letters of
  Latin-1 (192 to 222 without the multiplication sign 215) move up by 32.\<close>

definition py_lower_char :: "char \<Rightarrow> char" where
  "py_lower_char c =
     (let n = (of_char c :: nat) in
      if (65 \<le> n \<and> n \<le> 90) \<or> (192 \<le> n \<and> n \<le> 222 \<and> n \<noteq> 215)
      then char_of (n + 32) else c)"

definition py_lower :: "string \<Rightarrow> string" where
  "py_lower s = map py_lower_char s"

text \<open>\<^verbatim>\<open>str.upper()\<close> on ASCII. Its only call (line 158) passes a format that line 116 has
  already found to be \<^verbatim>\<open>mp3\<close> or \<^verbatim>\<open>wav\<close>.\<close>

definition py_upper_char :: "char \<Rightarrow> char" where
  "py_upper_char c =
     (let n = (of_char c :: nat) in
      if 97 \<le> n \<and> n \<le> 122 then char_of (n - 32) else c)"

definition py_upper :: "string \<Rightarrow> string" where
  "py_upper s = map py_upper_char s"

text \<open>\<^verbatim>\<open>sep.join(words)\<close>.\<close>

fun py_join :: "string \<Rightarrow> string list \<Rightarrow> string" where
  "py_join sep [] = []"
| "py_join sep [w] = w"
| "py_join sep (w # v # ws) = w @ sep @ py_join sep (v # ws)"

text \<open>\<^verbatim>\<open>str.isspace()\<close> on code points below 256, the separators of \<^verbatim>\<open>str.split()\<close>.\<close>

definition py_isspace :: "char \<Rightarrow> bool" where
  "py_isspace c =
     (let n = (of_char c :: nat) in
      (9 \<le> n \<and> n \<le> 13) \<or> (28 \<le> n \<and> n \<le> 32) \<or> n = 133 \<or> n = 160)"

text \<open>\<^verbatim>\<open>str.split()\<close> with no argument: the maximal runs of characters that are not
  white space. The first argument is the word read so far.\<close>

fun split_from :: "string \<Rightarrow> string \<Rightarrow> string list" where
  "split_from w [] = (if w = [] then [] else [w])"
| "split_from w (c # cs) =
     (if py_isspace c then (if w = [] then split_from [] cs else w # split_from [] cs)
      else split_from (w @ [c]) cs)"

definition py_split :: "string \<Rightarrow> string list" where
  "py_split s = split_from [] s"

text \<open>\<^verbatim>\<open>s.strip(chars)\<close>.\<close>

definition py_strip :: "string \<Rightarrow> string \<Rightarrow> string" where
  "py_strip chars s =
     rev (dropWhile (\<lambda>c. c \<in> set chars) (rev (dropWhile (\<lambda>c. c \<in> set chars) s)))"

text \<open>\<^verbatim>\<open>str(n)\<close> for an integer.\<close>

definition digit_char :: "nat \<Rightarrow> char" where
  "digit_char d = char_of (48 + d)"

function str_nat :: "nat \<Rightarrow> string" where
  "str_nat n = (if n < 10 then [digit_char n] else str_nat (n div 10) @ [digit_char (n mod 10)])"
  by pat_completeness auto
termination
  by (relation "measure id") auto

definition str_int :: "int \<Rightarrow> string" where
  "str_int i = (if i < 0 then ''-'' @ str_nat (nat (- i)) else str_nat (nat i))"

subsection \<open>Exceptions, the file system and the environment\<close>

text \<open>The exceptions the handlers of app.py tell apart, the one werkzeug raises for a
  request body over the limit, and every other one with its text. The argument of the first
  two is the path the operating system reports.\<close>

datatype exn =
  FileNotFoundError string
| IsADirectoryError string
| TimeoutExpired
| RequestEntityTooLarge
| OtherException string

type_synonym fsmap = "string \<rightharpoonup> bytes"

text \<open>The configuration of lines 13 and 14.\<close>

definition MAX_CONTENT_LENGTH :: nat where
  "MAX_CONTENT_LENGTH = 50 * 1024 * 1024"

definition UPLOAD_FOLDER :: string where
  "UPLOAD_FOLDER = ''static/temp''"

text \<open>\<^verbatim>\<open>os.path.join(a, b)\<close> of posixpath.\<close>

definition os_path_join :: "string \<Rightarrow> string \<Rightarrow> string" where
  "os_path_join a b =
     (if b \<noteq> [] \<and> hd b = CHR ''/'' then b
      else if a = [] \<or> last a = CHR ''/'' then a @ b
      else a @ ''/'' @ b)"

text \<open>The paths that name the scratch directory itself. Every path the program forms is
  \<^verbatim>\<open>os.path.join(UPLOAD_FOLDER, name)\<close> for a name without a separator, so the directory is
  the only path that exists without being a regular file.\<close>

definition is_scratch_dir :: "string \<Rightarrow> bool" where
  "is_scratch_dir p = (p = UPLOAD_FOLDER \<or> p = UPLOAD_FOLDER @ ''/'')"

definition os_path_exists :: "fsmap \<Rightarrow> string \<Rightarrow> bool" where
  "os_path_exists fs p = (fs p \<noteq> None \<or> is_scratch_dir p)"

definition os_remove :: "fsmap \<Rightarrow> string \<Rightarrow> exn + fsmap" where
  "os_remove fs p =
     (if is_scratch_dir p then Inl (IsADirectoryError p)
      else case fs p of
             None \<Rightarrow> Inl (FileNotFoundError p)
           | Some b \<Rightarrow> Inr (fs(p := None)))"

text \<open>The result of \<^verbatim>\<open>subprocess.run(..., capture_output=True, text=True)\<close>: a completed
  process with its return code and its two streams, or an exception.\<close>

datatype run_result =
  CompletedProcess (returncode: int) (stdout: string) (stderr: string)
| Raised exn

text \<open>The dictionary of lines 153 to 160, one field for each key.\<close>

record response_data =
  r_success :: bool
  r_filename :: string
  r_file_size :: string
  r_download_url :: string
  r_format :: string
  r_quality :: string

record env =
  ffmpeg_version :: run_result
  subprocess_run :: "string list \<Rightarrow> fsmap \<Rightarrow> run_result \<times> fsmap"
  uuid4 :: string
  now :: string
  dir_size :: nat
  str_round_mb :: "nat \<Rightarrow> string"
  str_exn :: "exn \<Rightarrow> string"
  repr_dict :: "response_data \<Rightarrow> string"
  nfkd_ascii :: "string \<Rightarrow> string"

text \<open>
  \<^item> \<open>ffmpeg_version\<close>: the run of \<^verbatim>\<open>['ffmpeg', '-version']\<close> in \<^verbatim>\<open>check_ffmpeg\<close>; it writes
    no file.
  \<^item> \<open>subprocess_run\<close>: the run of a conversion command with the timeout of 120 seconds,
    from the files before it to its result and the files after it. A run that is aborted
    or fails may have written files as well.
  \<^item> \<open>uuid4\<close>: \<^verbatim>\<open>str(uuid.uuid4())\<close>; \<open>now\<close>: \<^verbatim>\<open>datetime.now().strftime("%Y%m%d_%H%M%S")\<close>.
  \<^item> \<open>dir_size\<close>: the size the operating system reports for the scratch directory.
  \<^item> \<open>str_round_mb n\<close>: the text of the float \<^verbatim>\<open>round(n / (1024 * 1024), 2)\<close>.
  \<^item> \<open>str_exn\<close>: \<^verbatim>\<open>str(e)\<close>; \<open>repr_dict\<close>: the text of the response dictionary in the
    f-string of line 162.
  \<^item> \<open>nfkd_ascii\<close>: \<^verbatim>\<open>unicodedata.normalize("NFKD", s).encode("ascii", "ignore").decode("ascii")\<close>,
    the first two lines of werkzeug's \<^verbatim>\<open>secure_filename\<close>.
\<close>

definition os_path_getsize :: "env \<Rightarrow> fsmap \<Rightarrow> string \<Rightarrow> exn + nat" where
  "os_path_getsize e fs p =
     (if is_scratch_dir p then Inr (dir_size e)
      else case fs p of
             None \<Rightarrow> Inl (FileNotFoundError p)
           | Some b \<Rightarrow> Inr (length b))"

record state =
  files :: fsmap
  timers :: "(string \<times> string) list"
  printed :: "string list"

text \<open>\<^verbatim>\<open>print(line)\<close>.\<close>

definition pr :: "string \<Rightarrow> state \<Rightarrow> state" where
  "pr line st = st\<lparr>printed := printed st @ [line]\<rparr>"

subsection \<open>check_ffmpeg (lines 19 to 25)\<close>

definition check_ffmpeg :: "env \<Rightarrow> exn + bool" where
  "check_ffmpeg e =
     (case ffmpeg_version e of
        CompletedProcess rc out err \<Rightarrow> Inr (rc = 0)
      | Raised (FileNotFoundError p) \<Rightarrow> Inr False
      | Raised x \<Rightarrow> Inl x)"

subsection \<open>convert_audio (lines 27 to 82)\<close>

text \<open>The command of lines 36 to 56; \<open>None\<close> is the \<^verbatim>\<open>else\<close> branch of line 55.\<close>

definition ffmpeg_cmd :: "string \<Rightarrow> string \<Rightarrow> string \<Rightarrow> string \<Rightarrow> string list option" where
  "ffmpeg_cmd input_path output_path format_type quality =
     (if py_lower format_type = ''mp3'' then
        Some [''ffmpeg'', ''-i'', input_path,
              ''-codec:a'', ''libmp3lame'',
              ''-b:a'', quality @ ''k'',
              ''-ar'', ''44100'',
              ''-ac'', ''2'',
              ''-y'',
              output_path]
      else if py_lower format_type = ''wav'' then
        Some [''ffmpeg'', ''-i'', input_path,
              ''-codec:a'', ''pcm_s16le'',
              ''-ar'', ''44100'',
              ''-ac'', ''2'',
              ''-y'',
              output_path]
      else None)"

text \<open>The three handlers of lines 76 to 82, for an exception raised in the body.\<close>

definition convert_audio_except :: "env \<Rightarrow> exn \<Rightarrow> state \<Rightarrow> (bool \<times> string) \<times> state" where
  "convert_audio_except e x st =
     (case x of
        TimeoutExpired \<Rightarrow> ((False, ''Conversion timeout''), st)
      | FileNotFoundError p \<Rightarrow> ((False, ''FFmpeg not found. Please install FFmpeg.''), st)
      | _ \<Rightarrow> ((False, ''Conversion error: '' @ str_exn e x),
              pr (''Conversion exception: '' @ str_exn e x) st))"

definition convert_audio ::
  "env \<Rightarrow> string \<Rightarrow> string \<Rightarrow> string \<Rightarrow> string \<Rightarrow> state \<Rightarrow> (bool \<times> string) \<times> state" where
  "convert_audio e input_path output_path format_type quality st =
     (let st1 = pr (''Converting: '' @ input_path @ '' -> '' @ output_path) st;
          st2 = pr (''Format: '' @ format_type @ '', Quality: '' @ quality) st1
      in
      if \<not> os_path_exists (files st2) input_path then
        ((False, ''Input file not found: '' @ input_path), st2)
      else
        case ffmpeg_cmd input_path output_path format_type quality of
          None \<Rightarrow> ((False, ''Unsupported format''), st2)
        | Some cmd \<Rightarrow>
            (let st3 = pr (''FFmpeg command: '' @ py_join '' '' cmd) st2 in
             case subprocess_run e cmd (files st3) of
               (Raised x, fs') \<Rightarrow> convert_audio_except e x (st3\<lparr>files := fs'\<rparr>)
             | (CompletedProcess rc out err, fs') \<Rightarrow>
                 (let st4 = pr (''FFmpeg return code: '' @ str_int rc) (st3\<lparr>files := fs'\<rparr>);
                      st5 = (if out \<noteq> [] then pr (''FFmpeg stdout: '' @ out) st4 else st4);
                      st6 = (if err \<noteq> [] then pr (''FFmpeg stderr: '' @ err) st5 else st5)
                  in
                  if rc = 0 \<and> os_path_exists (files st6) output_path then
                    (case os_path_getsize e (files st6) output_path of
                       Inl x \<Rightarrow> convert_audio_except e x st6
                     | Inr file_size \<Rightarrow>
                         ((True, ''Conversion successful''),
                          pr (''Output file created: '' @ output_path @ '', Size: ''
                              @ str_nat file_size @ '' bytes'') st6))
                  else ((False, ''FFmpeg error: '' @ err), st6))))"

subsection \<open>secure_filename (werkzeug.utils), called at line 178\<close>

text \<open>The library function on a POSIX system, where \<^verbatim>\<open>os.sep\<close> is the slash and
  \<^verbatim>\<open>os.path.altsep\<close> is \<^verbatim>\<open>None\<close>: normalise and drop what is not ASCII, turn every separator
  into a space, join the words with an underscore, delete every character outside
  \<^verbatim>\<open>[A-Za-z0-9_.-]\<close>, strip dots and underscores at both ends. Its last step, for reserved
  device names, runs on Windows only.\<close>

definition filename_ascii :: string where
  "filename_ascii = ''ABCDEFGHIJKLMNOPQRSTUVWXYZabcdefghijklmnopqrstuvwxyz0123456789_.-''"

definition secure_filename :: "env \<Rightarrow> string \<Rightarrow> string" where
  "secure_filename e filename =
     (let s0 = nfkd_ascii e filename;
          s1 = map (\<lambda>c. if c = CHR ''/'' then CHR '' '' else c) s0;
          s2 = py_join ''_'' (py_split s1);
          s3 = filter (\<lambda>c. c \<in> set filename_ascii) s2
      in py_strip ''._'' s3)"

subsection \<open>upload_audio (lines 92 to 172)\<close>

text \<open>What the handler reads of a request: the length of its body, the part \<^verbatim>\<open>audio\<close> of
  \<^verbatim>\<open>request.files\<close> with its file name and content, and the form fields \<^verbatim>\<open>format\<close> and
  \<^verbatim>\<open>quality\<close>. The body is parsed at the first access to \<^verbatim>\<open>request.files\<close>, on line 102; for
  a body longer than \<^verbatim>\<open>MAX_CONTENT_LENGTH\<close> that access raises \<^verbatim>\<open>RequestEntityTooLarge\<close> and
  nothing of the body is read.\<close>

record request =
  req_content_length :: nat
  req_audio :: "(string \<times> bytes) option"
  req_format :: "string option"
  req_quality :: "string option"

datatype json = ErrorJson string | DataJson response_data

text \<open>A response: \<^verbatim>\<open>jsonify(...)\<close> with its status, or the result of \<^verbatim>\<open>send_file\<close> with the
  path it reads and the name of the attachment.\<close>

datatype response = JsonResponse json nat | FileResponse string string

definition status :: "response \<Rightarrow> nat" where
  "status r = (case r of JsonResponse j n \<Rightarrow> n | FileResponse p d \<Rightarrow> 200)"

text \<open>Lines 139 to 144: the removal of the stored input, with its handler.\<close>

definition cleanup_input :: "env \<Rightarrow> string \<Rightarrow> state \<Rightarrow> state" where
  "cleanup_input e temp_input st =
     (case os_remove (files st) temp_input of
        Inr fs' \<Rightarrow> pr (''Cleaned up input file: '' @ temp_input) (st\<lparr>files := fs'\<rparr>)
      | Inl x \<Rightarrow> pr (''Error cleaning up input file: '' @ str_exn e x) st)"

text \<open>The names of lines 120 to 132.\<close>

definition unique_id :: "env \<Rightarrow> string" where
  "unique_id e = take 8 (uuid4 e)"

definition temp_input_path :: "env \<Rightarrow> string" where
  "temp_input_path e = os_path_join UPLOAD_FOLDER (''temp_'' @ unique_id e @ ''.webm'')"

definition output_name :: "env \<Rightarrow> string \<Rightarrow> string" where
  "output_name e format_type = ''recording_'' @ now e @ ''_'' @ unique_id e @ ''.'' @ format_type"

text \<open>The body of the \<^verbatim>\<open>try\<close> of line 95: a response, or the exception that leaves it.
  \<^verbatim>\<open>FileStorage.save\<close> writes the content of the upload to the path.\<close>

definition upload_audio_try :: "env \<Rightarrow> request \<Rightarrow> state \<Rightarrow> (exn + response) \<times> state" where
  "upload_audio_try e req st =
     (let st0 = pr ''=== Audio Upload Request ==='' st in
      case check_ffmpeg e of
        Inl x \<Rightarrow> (Inl x, st0)
      | Inr False \<Rightarrow>
          (Inr (JsonResponse
             (ErrorJson ''FFmpeg is not installed on the server. Please install FFmpeg.'') 500),
           st0)
      | Inr True \<Rightarrow>
          (if MAX_CONTENT_LENGTH < req_content_length req then (Inl RequestEntityTooLarge, st0)
           else
           case req_audio req of
             None \<Rightarrow> (Inr (JsonResponse (ErrorJson ''No audio file provided'') 400), st0)
           | Some (audio_filename, audio_data) \<Rightarrow>
               (let format_type = py_lower (case req_format req of None \<Rightarrow> ''mp3'' | Some f \<Rightarrow> f);
                    quality = (case req_quality req of None \<Rightarrow> ''192'' | Some q \<Rightarrow> q);
                    st1 = pr (''Received file: '' @ audio_filename) st0;
                    st2 = pr (''Format: '' @ format_type @ '', Quality: '' @ quality) st1
                in
                if audio_filename = [] then
                  (Inr (JsonResponse (ErrorJson ''No file selected'') 400), st2)
                else if format_type \<notin> set [''mp3'', ''wav''] then
                  (Inr (JsonResponse (ErrorJson ''Invalid format. Use mp3 or wav'') 400), st2)
                else
                  (let temp_input = temp_input_path e;
                       st3 = st2\<lparr>files := (files st2)(temp_input \<mapsto> audio_data)\<rparr>;
                       st4 = pr (''Saved input file: '' @ temp_input) st3
                   in
                   case os_path_getsize e (files st4) temp_input of
                     Inl x \<Rightarrow> (Inl x, st4)
                   | Inr input_size \<Rightarrow>
                       (let st5 = pr (''Input file size: '' @ str_nat input_size @ '' bytes'') st4;
                            output_filename = output_name e format_type;
                            output_path = os_path_join UPLOAD_FOLDER output_filename;
                            st6 = pr (''Output path: '' @ output_path) st5;
                            conv = convert_audio e temp_input output_path format_type quality st6;
                            success = fst (fst conv);
                            message = snd (fst conv);
                            st7 = cleanup_input e temp_input (snd conv)
                        in
                        if success then
                          (case os_path_getsize e (files st7) output_path of
                             Inl x \<Rightarrow> (Inl x, st7)
                           | Inr file_size \<Rightarrow>
                               (let file_size_mb = str_round_mb e file_size;
                                    st8 = pr (''Conversion successful! Output file size: ''
                                              @ file_size_mb @ '' MB'') st7;
                                    response_data =
                                      \<lparr>r_success = True,
                                       r_filename = output_filename,
                                       r_file_size = file_size_mb @ '' MB'',
                                       r_download_url = ''/download/'' @ output_filename,
                                       r_format = py_upper format_type,
                                       r_quality = (if format_type = ''mp3'' then quality @ '' kbps''
                                                    else ''Uncompressed'')\<rparr>;
                                    st9 = pr (''Response: '' @ repr_dict e response_data) st8
                                in (Inr (JsonResponse (DataJson response_data) 200), st9)))
                        else
                          (Inr (JsonResponse (ErrorJson (''Conversion failed: '' @ message)) 500),
                           pr (''Conversion failed: '' @ message) st7))))))"

text \<open>The handler of lines 168 to 172 around it. \<^verbatim>\<open>traceback.print_exc()\<close> writes to the
  standard error stream, which the state does not hold.\<close>

definition upload_audio :: "env \<Rightarrow> request \<Rightarrow> state \<Rightarrow> response \<times> state" where
  "upload_audio e req st =
     (case upload_audio_try e req st of
        (Inr r, st') \<Rightarrow> (r, st')
      | (Inl x, st') \<Rightarrow>
          (JsonResponse (ErrorJson (''Server error: '' @ str_exn e x)) 500,
           pr (''Upload error: '' @ str_exn e x) st'))"

subsection \<open>download_file (lines 174 to 210)\<close>

text \<open>\<^verbatim>\<open>send_file(path, download_name=...)\<close>: the response that delivers the file, or the
  exception of opening what is not a regular file.\<close>

definition send_file :: "fsmap \<Rightarrow> string \<Rightarrow> string \<Rightarrow> exn + response" where
  "send_file fs p download_name =
     (if is_scratch_dir p then Inl (IsADirectoryError p)
      else case fs p of
             None \<Rightarrow> Inl (FileNotFoundError p)
           | Some b \<Rightarrow> Inr (FileResponse p download_name))"

text \<open>The thread of lines 190 to 199 after its \<^verbatim>\<open>time.sleep(300)\<close>.\<close>

definition delete_after_delay :: "env \<Rightarrow> string \<Rightarrow> string \<Rightarrow> state \<Rightarrow> state" where
  "delete_after_delay e file_path filename st =
     (if os_path_exists (files st) file_path then
        (case os_remove (files st) file_path of
           Inr fs' \<Rightarrow> pr (''Deleted file after download: '' @ filename) (st\<lparr>files := fs'\<rparr>)
         | Inl x \<Rightarrow> pr (''Error deleting file: '' @ str_exn e x) st)
      else st)"

text \<open>Starting the thread puts its two captured variables at the end of \<open>timers\<close>; the
  response is built without running it.\<close>

definition download_file :: "env \<Rightarrow> string \<Rightarrow> state \<Rightarrow> response \<times> state" where
  "download_file e filename st =
     (let file_path = os_path_join UPLOAD_FOLDER (secure_filename e filename);
          st1 = pr (''Download requested: '' @ filename) st;
          st2 = pr (''File path: '' @ file_path) st1
      in
      if \<not> os_path_exists (files st2) file_path then
        (JsonResponse (ErrorJson ''File not found'') 404,
         pr (''File not found: '' @ file_path) st2)
      else
        (let st3 = pr (''Serving file: '' @ file_path) st2;
             st4 = st3\<lparr>timers := timers st3 @ [(file_path, filename)]\<rparr>
         in
         case send_file (files st4) file_path filename of
           Inr r \<Rightarrow> (r, st4)
         | Inl x \<Rightarrow>
             (JsonResponse (ErrorJson (''Download error: '' @ str_exn e x)) 500,
              pr (''Download error: '' @ str_exn e x) st4)))"

text \<open>The threads all sleep for the same 300 seconds, so the oldest one wakes first.\<close>

definition fire_timer :: "env \<Rightarrow> state \<Rightarrow> state" where
  "fire_timer e st =
     (case timers st of
        [] \<Rightarrow> st
      | (file_path, filename) # ts \<Rightarrow> delete_after_delay e file_path filename (st\<lparr>timers := ts\<rparr>))"

subsection \<open>Notions the statements use\<close>

text \<open>The message of the handlers of lines 76 to 82, which does not depend on the state.\<close>

definition except_message :: "env \<Rightarrow> exn \<Rightarrow> string" where
  "except_message e x =
     (case x of
        TimeoutExpired \<Rightarrow> ''Conversion timeout''
      | FileNotFoundError p \<Rightarrow> ''FFmpeg not found. Please install FFmpeg.''
      | _ \<Rightarrow> ''Conversion error: '' @ str_exn e x)"

text \<open>The two form fields as lines 106 and 107 read them.\<close>

definition form_format :: "request \<Rightarrow> string" where
  "form_format req = py_lower (case req_format req of None \<Rightarrow> ''mp3'' | Some f \<Rightarrow> f)"

definition form_quality :: "request \<Rightarrow> string" where
  "form_quality req = (case req_quality req of None \<Rightarrow> ''192'' | Some q \<Rightarrow> q)"

text \<open>The state after the prints of lines 96, 109 and 110.\<close>

definition upload_start :: "request \<Rightarrow> string \<Rightarrow> state \<Rightarrow> state" where
  "upload_start req n st =
     pr (''Format: '' @ form_format req @ '', Quality: '' @ form_quality req)
       (pr (''Received file: '' @ n) (pr ''=== Audio Upload Request ==='' st))"

text \<open>The dictionary of lines 153 to 160 for an output file of the given size.\<close>

definition success_data :: "env \<Rightarrow> request \<Rightarrow> nat \<Rightarrow> response_data" where
  "success_data e req file_size =
     \<lparr>r_success = True,
      r_filename = output_name e (form_format req),
      r_file_size = str_round_mb e file_size @ '' MB'',
      r_download_url = ''/download/'' @ output_name e (form_format req),
      r_format = py_upper (form_format req),
      r_quality = (if form_format req = ''mp3'' then form_quality req @ '' kbps''
                   else ''Uncompressed'')\<rparr>"

text \<open>The response of lines 146 to 166 as a function of what the transcoder's run returned
  and of the files it left.\<close>

definition run_response :: "env \<Rightarrow> request \<Rightarrow> run_result \<Rightarrow> fsmap \<Rightarrow> response" where
  "run_response e req res fs' =
     (case res of
        CompletedProcess rc out err \<Rightarrow>
          (case fs' (os_path_join UPLOAD_FOLDER (output_name e (form_format req))) of
             Some b \<Rightarrow>
               if rc = 0 then JsonResponse (DataJson (success_data e req (length b))) 200
               else JsonResponse (ErrorJson (''Conversion failed: FFmpeg error: '' @ err)) 500
           | None \<Rightarrow> JsonResponse (ErrorJson (''Conversion failed: FFmpeg error: '' @ err)) 500)
      | Raised x \<Rightarrow> JsonResponse (ErrorJson (''Conversion failed: '' @ except_message e x)) 500)"

text \<open>A request that gets past lines 99 and 102: the transcoder is available and the body is
  within the limit, so that it is read.\<close>

definition request_read :: "env \<Rightarrow> request \<Rightarrow> bool" where
  "request_read e req =
     (check_ffmpeg e = Inr True \<and> req_content_length req \<le> MAX_CONTENT_LENGTH)"

text \<open>A request that passes the checks of lines 99 to 117.\<close>

definition valid_upload :: "env \<Rightarrow> request \<Rightarrow> bool" where
  "valid_upload e req =
     (check_ffmpeg e = Inr True \<and>
      req_content_length req \<le> MAX_CONTENT_LENGTH \<and>
      (case req_audio req of None \<Rightarrow> False | Some (n, d) \<Rightarrow> n \<noteq> []) \<and>
      form_format req \<in> set [''mp3'', ''wav''])"

subsection \<open>Concrete runs\<close>

text \<open>An environment in which the transcoder is installed and writes six bytes to the
  output path, the last word of its command. The identifiers of the examples are ASCII, on
  which normalisation changes nothing, and the files are far below the 5243 bytes from which
  the size rounds to 0.01 MB.\<close>

definition quoted :: "string \<Rightarrow> string" where
  "quoted p = [CHR 0x27] @ p @ [CHR 0x27]"

definition env_ok :: env where
  "env_ok =
     \<lparr>ffmpeg_version = CompletedProcess 0 ''ffmpeg version 6.0'' [],
      subprocess_run = (\<lambda>cmd fs. (CompletedProcess 0 [] ''size=1kB'', fs(last cmd \<mapsto> ''ID3abc''))),
      uuid4 = ''1b9d6bcd-bbfd-4b2d-9b5d-ab8dfbbd4bed'',
      now = ''20240101_120000'',
      dir_size = 4096,
      str_round_mb = (\<lambda>n. ''0.0''),
      str_exn = (\<lambda>x. case x of
                   FileNotFoundError p \<Rightarrow> ''[Errno 2] No such file or directory: '' @ quoted p
                 | IsADirectoryError p \<Rightarrow> ''[Errno 21] Is a directory: '' @ quoted p
                 | TimeoutExpired \<Rightarrow> ''Command timed out after 120 seconds''
                 | RequestEntityTooLarge \<Rightarrow>
                     ''413 Request Entity Too Large: The data value transmitted exceeds the capacity limit.''
                 | OtherException m \<Rightarrow> m),
      repr_dict = (\<lambda>d. ''{...}''),
      nfkd_ascii = (\<lambda>s. s)\<rparr>"

text \<open>The transcoder rejects the input and names it in its diagnostic stream.\<close>

definition env_fail :: env where
  "env_fail = env_ok\<lparr>subprocess_run := (\<lambda>cmd fs.
     (CompletedProcess 1 []
        ''static/temp/temp_1b9d6bcd.webm: Invalid data found when processing input'', fs))\<rparr>"

text \<open>The transcoder exits with code zero and writes nothing.\<close>

definition env_no_output :: env where
  "env_no_output = env_ok\<lparr>subprocess_run := (\<lambda>cmd fs.
     (CompletedProcess 0 [] ''Output file is empty, nothing was encoded'', fs))\<rparr>"

text \<open>The transcoder has written four bytes of output when the timeout aborts it.\<close>

definition env_timeout :: env where
  "env_timeout = env_ok\<lparr>subprocess_run := (\<lambda>cmd fs.
     (Raised TimeoutExpired, fs(last cmd \<mapsto> ''RIFF'')))\<rparr>"

text \<open>The transcoder is not installed.\<close>

definition env_absent :: env where
  "env_absent = env_ok\<lparr>ffmpeg_version := Raised (FileNotFoundError ''ffmpeg'')\<rparr>"

definition st_empty :: state where
  "st_empty = \<lparr>files = Map.empty, timers = [], printed = []\<rparr>"

definition req_mp3 :: request where
  "req_mp3 = \<lparr>req_content_length = 4096, req_audio = Some (''blob'', ''webmdata''),
              req_format = Some ''mp3'', req_quality = Some ''128''\<rparr>"

definition req_no_audio :: request where
  "req_no_audio = \<lparr>req_content_length = 4096, req_audio = None,
                   req_format = Some ''mp3'', req_quality = Some ''128''\<rparr>"

text \<open>A request without the part whose body is 60 MB long.\<close>

definition req_oversize :: request where
  "req_oversize = req_no_audio\<lparr>req_content_length := 60000000\<rparr>"

text \<open>The state in which the recording of \<open>req_mp3\<close> is stored and not yet converted.\<close>

definition st_staged :: state where
  "st_staged = \<lparr>files = [''static/temp/temp_1b9d6bcd.webm'' \<mapsto> ''webmdata''],
                timers = [], printed = []\<rparr>"

definition mp3_cmd :: "string list" where
  "mp3_cmd = [''ffmpeg'', ''-i'', ''static/temp/temp_1b9d6bcd.webm'',
              ''-codec:a'', ''libmp3lame'', ''-b:a'', ''128k'', ''-ar'', ''44100'',
              ''-ac'', ''2'', ''-y'', ''static/temp/recording_20240101_120000_1b9d6bcd.mp3'']"


text \<open>The state in which line 137 calls \<^verbatim>\<open>convert_audio\<close>: the upload is stored and the prints
  of lines 127 to 134 are done.\<close>

definition staged_state :: "env \<Rightarrow> request \<Rightarrow> string \<Rightarrow> bytes \<Rightarrow> state \<Rightarrow> state" where
  "staged_state e req n d st =
     pr (''Output path: '' @ os_path_join UPLOAD_FOLDER (output_name e (form_format req)))
       (pr (''Input file size: '' @ str_nat (length d) @ '' bytes'')
         (pr (''Saved input file: '' @ temp_input_path e)
           ((upload_start req n st)\<lparr>files := (files st)(temp_input_path e \<mapsto> d)\<rparr>)))"

text \<open>A request for a format the server does not offer.\<close>

definition req_ogg :: request where
  "req_ogg = \<lparr>req_content_length = 4096, req_audio = Some (''blob'', ''webmdata''),
              req_format = Some ''ogg'', req_quality = Some ''128''\<rparr>"

text \<open>A request whose quality is not a number, and a transcoder that rejects the bitrate
  argument made from it.\<close>

definition req_high :: request where
  "req_high = \<lparr>req_content_length = 4096, req_audio = Some (''blob'', ''webmdata''),
               req_format = Some ''mp3'', req_quality = Some ''high''\<rparr>"

definition env_bitrate :: env where
  "env_bitrate = env_ok\<lparr>subprocess_run := (\<lambda>cmd fs.
     (CompletedProcess 1 [] ''Error setting option b to value highk.'', fs))\<rparr>"

text \<open>A state in which one converted file waits for its download.\<close>

definition st_served :: state where
  "st_served = \<lparr>files = [''static/temp/recording_20240101_120000_1b9d6bcd.mp3'' \<mapsto> ''ID3abc''],
                timers = [], printed = []\<rparr>"

section \<open>Facts about the model\<close>

lemma pr_simps [simp]:
  "files (pr l st) = files st" "timers (pr l st) = timers st"
  "printed (pr l st) = printed st @ [l]"
  by (simp_all add: pr_def)

lemma py_lower_mp3 [simp]: "py_lower ''mp3'' = ''mp3''"
  by code_simp

lemma py_lower_wav [simp]: "py_lower ''wav'' = ''wav''"
  by code_simp

lemma py_upper_mp3 [simp]: "py_upper ''mp3'' = ''MP3''"
  by code_simp

lemma py_upper_wav [simp]: "py_upper ''wav'' = ''WAV''"
  by code_simp

lemma convert_audio_except_simps [simp]:
  "fst (convert_audio_except e x st) = (False, except_message e x)"
  "files (snd (convert_audio_except e x st)) = files st"
  "timers (snd (convert_audio_except e x st)) = timers st"
  by (simp_all add: convert_audio_except_def except_message_def split: exn.splits)

lemma getsize_exists:
  "os_path_exists fs p \<Longrightarrow> \<exists>n. os_path_getsize e fs p = Inr n"
  by (auto simp: os_path_exists_def os_path_getsize_def)

lemma convert_audio_run:
  assumes "os_path_exists (files st) input_path"
      and "ffmpeg_cmd input_path output_path format_type quality = Some cmd"
      and "subprocess_run e cmd (files st) = (res, fs')"
  shows "files (snd (convert_audio e input_path output_path format_type quality st)) = fs'"
    and "timers (snd (convert_audio e input_path output_path format_type quality st)) = timers st"
    and "fst (convert_audio e input_path output_path format_type quality st) =
           (case res of
              CompletedProcess rc out err \<Rightarrow>
                if rc = 0 \<and> os_path_exists fs' output_path then (True, ''Conversion successful'')
                else (False, ''FFmpeg error: '' @ err)
            | Raised x \<Rightarrow> (False, except_message e x))"
  using assms getsize_exists[of fs' output_path e]
  by (auto simp: convert_audio_def Let_def split: run_result.splits sum.splits)

lemma convert_audio_timers [simp]:
  "timers (snd (convert_audio e input_path output_path format_type quality st)) = timers st"
  by (auto simp: convert_audio_def Let_def split: run_result.splits sum.splits option.splits prod.splits)

lemma cleanup_input_timers [simp]: "timers (cleanup_input e p st) = timers st"
  by (simp add: cleanup_input_def split: sum.splits)

lemma cleanup_input_files:
  "\<not> is_scratch_dir p \<Longrightarrow> files (cleanup_input e p st) = (files st)(p := None)"
  by (auto simp: cleanup_input_def os_remove_def split: sum.splits option.splits)

lemma os_path_join_upload:
  "n = [] \<or> hd n \<noteq> CHR ''/'' \<Longrightarrow> os_path_join UPLOAD_FOLDER n = ''static/temp/'' @ n"
  by (auto simp: os_path_join_def UPLOAD_FOLDER_def)

lemma temp_input_path_eq: "temp_input_path e = ''static/temp/temp_'' @ unique_id e @ ''.webm''"
  by (simp add: temp_input_path_def os_path_join_upload)

lemma output_path_eq:
  "os_path_join UPLOAD_FOLDER (output_name e f) =
     ''static/temp/recording_'' @ now e @ ''_'' @ unique_id e @ ''.'' @ f"
  by (simp add: output_name_def os_path_join_upload)

lemma is_scratch_dir_eq: "is_scratch_dir p = (p = ''static/temp'' \<or> p = ''static/temp/'')"
  by (simp add: is_scratch_dir_def UPLOAD_FOLDER_def)

lemma temp_not_dir [simp]: "\<not> is_scratch_dir (temp_input_path e)"
  by (simp add: temp_input_path_eq is_scratch_dir_eq)

lemma output_not_dir [simp]: "\<not> is_scratch_dir (os_path_join UPLOAD_FOLDER (output_name e f))"
  by (simp add: output_path_eq is_scratch_dir_eq)

lemma output_neq_temp [simp]:
  "os_path_join UPLOAD_FOLDER (output_name e f) \<noteq> temp_input_path e"
  "temp_input_path e \<noteq> os_path_join UPLOAD_FOLDER (output_name e f)"
  by (simp_all add: output_path_eq temp_input_path_eq)

lemma ffmpeg_cmd_valid:
  "f \<in> set [''mp3'', ''wav''] \<Longrightarrow> \<exists>cmd. ffmpeg_cmd i p f q = Some cmd"
  by (auto simp: ffmpeg_cmd_def)


lemma try_probe_fail:
  "check_ffmpeg e \<noteq> Inr True \<Longrightarrow>
   upload_audio_try e req st =
     (case check_ffmpeg e of
        Inl x \<Rightarrow> (Inl x, pr ''=== Audio Upload Request ==='' st)
      | Inr b \<Rightarrow> (Inr (JsonResponse
             (ErrorJson ''FFmpeg is not installed on the server. Please install FFmpeg.'') 500),
           pr ''=== Audio Upload Request ==='' st))"
proof (cases "check_ffmpeg e")
  case (Inl x)
  then show ?thesis by (simp add: upload_audio_try_def)
next
  case (Inr b)
  assume "check_ffmpeg e \<noteq> Inr True"
  with Inr have "b = False" by simp
  with Inr show ?thesis by (simp add: upload_audio_try_def)
qed

lemma try_too_large:
  "check_ffmpeg e = Inr True \<Longrightarrow> MAX_CONTENT_LENGTH < req_content_length req \<Longrightarrow>
   upload_audio_try e req st =
     (Inl RequestEntityTooLarge, pr ''=== Audio Upload Request ==='' st)"
  by (simp add: upload_audio_try_def)

lemma try_no_audio:
  "request_read e req \<Longrightarrow> req_audio req = None \<Longrightarrow>
   upload_audio_try e req st =
     (Inr (JsonResponse (ErrorJson ''No audio file provided'') 400),
      pr ''=== Audio Upload Request ==='' st)"
  by (simp add: upload_audio_try_def request_read_def)

lemma upload_start_simps [simp]:
  "files (upload_start req n st) = files st" "timers (upload_start req n st) = timers st"
  by (simp_all add: upload_start_def)

lemma try_no_name:
  "request_read e req \<Longrightarrow> req_audio req = Some ([], d) \<Longrightarrow>
   upload_audio_try e req st =
     (Inr (JsonResponse (ErrorJson ''No file selected'') 400), upload_start req [] st)"
  by (simp add: upload_audio_try_def request_read_def upload_start_def form_format_def
      form_quality_def Let_def)

lemma try_bad_format:
  "request_read e req \<Longrightarrow> req_audio req = Some (n, d) \<Longrightarrow> n \<noteq> [] \<Longrightarrow>
   form_format req \<notin> set [''mp3'', ''wav''] \<Longrightarrow>
   upload_audio_try e req st =
     (Inr (JsonResponse (ErrorJson ''Invalid format. Use mp3 or wav'') 400), upload_start req n st)"
  by (simp add: upload_audio_try_def request_read_def upload_start_def form_format_def
      form_quality_def Let_def)


lemma getsize_temp:
  "os_path_getsize e (fs(temp_input_path e \<mapsto> d)) (temp_input_path e) = Inr (length d)"
  by (simp add: os_path_getsize_def)

lemma files_update [simp]: "files (st\<lparr>files := f\<rparr>) = f"
  by simp

lemma try_valid:
  "request_read e req \<Longrightarrow> req_audio req = Some (n, d) \<Longrightarrow> n \<noteq> [] \<Longrightarrow>
   form_format req \<in> set [''mp3'', ''wav''] \<Longrightarrow>
   upload_audio_try e req st =
        (let st6 = pr (''Output path: '' @ os_path_join UPLOAD_FOLDER (output_name e (form_format req)))
                    (pr (''Input file size: '' @ str_nat (length d) @ '' bytes'')
                      (pr (''Saved input file: '' @ temp_input_path e)
                        ((upload_start req n st)
                           \<lparr>files := (files st)(temp_input_path e \<mapsto> d)\<rparr>)));
             conv = convert_audio e (temp_input_path e)
                      (os_path_join UPLOAD_FOLDER (output_name e (form_format req)))
                      (form_format req) (form_quality req) st6;
             st7 = cleanup_input e (temp_input_path e) (snd conv)
         in if fst (fst conv) then
              (case os_path_getsize e (files st7)
                      (os_path_join UPLOAD_FOLDER (output_name e (form_format req))) of
                 Inl x \<Rightarrow> (Inl x, st7)
               | Inr file_size \<Rightarrow>
                   (Inr (JsonResponse (DataJson (success_data e req file_size)) 200),
                    pr (''Response: '' @ repr_dict e (success_data e req file_size))
                      (pr (''Conversion successful! Output file size: ''
                            @ str_round_mb e file_size @ '' MB'') st7)))
            else (Inr (JsonResponse (ErrorJson (''Conversion failed: '' @ snd (fst conv))) 500),
                  pr (''Conversion failed: '' @ snd (fst conv)) st7))"
  apply (simp only: request_read_def not_less[symmetric])
  apply (erule conjE)
  apply (simp only: upload_audio_try_def)
  apply (simp only: Let_def)
  apply (simp only: sum.case bool.case option.case prod.case if_False)
  apply (simp only: form_format_def[symmetric] form_quality_def[symmetric] if_False not_True_eq_False not_not simp_thms)
  apply (simp only: pr_simps files_update getsize_temp sum.case)
  apply (simp only: upload_start_def[symmetric] success_data_def[symmetric])
  done

lemma exists_output:
  "os_path_exists fs (os_path_join UPLOAD_FOLDER (output_name e f)) =
     (fs (os_path_join UPLOAD_FOLDER (output_name e f)) \<noteq> None)"
  by (simp add: os_path_exists_def)

lemma getsize_output:
  "os_path_getsize e (fs(temp_input_path e := None)) (os_path_join UPLOAD_FOLDER (output_name e f)) =
     (case fs (os_path_join UPLOAD_FOLDER (output_name e f)) of
        None \<Rightarrow> Inl (FileNotFoundError (os_path_join UPLOAD_FOLDER (output_name e f)))
      | Some b \<Rightarrow> Inr (length b))"
  by (simp add: os_path_getsize_def)

lemma upload_audio_valid:
  assumes p: "request_read e req"
      and a: "req_audio req = Some (n, d)"
      and n: "n \<noteq> []"
      and f: "form_format req \<in> set [''mp3'', ''wav'']"
      and c: "ffmpeg_cmd (temp_input_path e) (os_path_join UPLOAD_FOLDER (output_name e (form_format req)))
                (form_format req) (form_quality req) = Some cmd"
      and r: "subprocess_run e cmd ((files st)(temp_input_path e \<mapsto> d)) = (res, fs')"
  shows "files (snd (upload_audio e req st)) = fs'(temp_input_path e := None)"
    and "timers (snd (upload_audio e req st)) = timers st"
    and "fst (upload_audio e req st) = run_response e req res fs'"
proof -
  let ?tin = "temp_input_path e"
  let ?out = "os_path_join UPLOAD_FOLDER (output_name e (form_format req))"
  define st6 where "st6 = pr (''Output path: '' @ ?out)
                    (pr (''Input file size: '' @ str_nat (length d) @ '' bytes'')
                      (pr (''Saved input file: '' @ ?tin)
                        ((upload_start req n st)\<lparr>files := (files st)(?tin \<mapsto> d)\<rparr>)))"
  define conv where "conv = convert_audio e ?tin ?out (form_format req) (form_quality req) st6"
  define st7 where "st7 = cleanup_input e ?tin (snd conv)"
  have fs6: "files st6 = (files st)(?tin \<mapsto> d)" and t6: "timers st6 = timers st"
    by (simp_all add: st6_def)
  have ex: "os_path_exists (files st6) ?tin"
    by (simp add: fs6 os_path_exists_def)
  have r6: "subprocess_run e cmd (files st6) = (res, fs')"
    using r by (simp add: fs6)
  have cf: "files (snd conv) = fs'" and ct: "timers (snd conv) = timers st"
    using convert_audio_run(1,2)[OF ex c r6] by (simp_all add: conv_def t6)
  have cr: "fst conv =
           (case res of
              CompletedProcess rc out err \<Rightarrow>
                if rc = 0 \<and> fs' ?out \<noteq> None then (True, ''Conversion successful'')
                else (False, ''FFmpeg error: '' @ err)
            | Raised x \<Rightarrow> (False, except_message e x))"
    using convert_audio_run(3)[OF ex c r6] unfolding conv_def exists_output .
  have f7: "files st7 = fs'(?tin := None)" and t7: "timers st7 = timers st"
    by (simp_all add: st7_def cleanup_input_files cf ct)
  have gs: "os_path_getsize e (files st7) ?out =
     (case fs' ?out of None \<Rightarrow> Inl (FileNotFoundError ?out) | Some b \<Rightarrow> Inr (length b))"
    by (simp only: f7 getsize_output)
  have body: "upload_audio_try e req st =
     (if fst (fst conv) then
        (case os_path_getsize e (files st7) ?out of
           Inl x \<Rightarrow> (Inl x, st7)
         | Inr file_size \<Rightarrow>
             (Inr (JsonResponse (DataJson (success_data e req file_size)) 200),
              pr (''Response: '' @ repr_dict e (success_data e req file_size))
                (pr (''Conversion successful! Output file size: ''
                      @ str_round_mb e file_size @ '' MB'') st7)))
      else (Inr (JsonResponse (ErrorJson (''Conversion failed: '' @ snd (fst conv))) 500),
            pr (''Conversion failed: '' @ snd (fst conv)) st7))"
    unfolding try_valid[OF p a n f] st7_def conv_def st6_def Let_def ..
  have all: "files (snd (upload_audio e req st)) = fs'(?tin := None) \<and>
             timers (snd (upload_audio e req st)) = timers st \<and>
             fst (upload_audio e req st) = run_response e req res fs'"
  proof (cases res)
    case (Raised x)
    then show ?thesis
      by (simp add: upload_audio_def body cr f7 t7 run_response_def)
  next
    case (CompletedProcess rc out err)
    show ?thesis
    proof (cases "fs' ?out")
      case None
      with CompletedProcess show ?thesis
        by (simp add: upload_audio_def body cr f7 t7 run_response_def)
    next
      case (Some b)
      with CompletedProcess show ?thesis
        by (simp add: upload_audio_def body cr getsize_output f7 t7 run_response_def)
    qed
  qed
  from all show "files (snd (upload_audio e req st)) = fs'(?tin := None)" by simp
  from all show "timers (snd (upload_audio e req st)) = timers st" by simp
  from all show "fst (upload_audio e req st) = run_response e req res fs'" by simp
qed

lemma convert_audio_no_input:
  "\<not> os_path_exists (files st) input_path \<Longrightarrow>
   fst (convert_audio e input_path output_path format_type quality st) =
     (False, ''Input file not found: '' @ input_path)"
  by (simp add: convert_audio_def Let_def)

lemma convert_audio_no_cmd:
  "os_path_exists (files st) input_path \<Longrightarrow>
   ffmpeg_cmd input_path output_path format_type quality = None \<Longrightarrow>
   fst (convert_audio e input_path output_path format_type quality st) =
     (False, ''Unsupported format'')"
  by (simp add: convert_audio_def Let_def)

lemma valid_uploadD:
  assumes "valid_upload e req"
  obtains n d where "request_read e req" "req_audio req = Some (n, d)" "n \<noteq> []"
    "form_format req \<in> set [''mp3'', ''wav'']"
  using assms by (auto simp: valid_upload_def request_read_def split: option.splits)

lemma status_run_response: "status (run_response e req res fs') = 200 \<or> status (run_response e req res fs') = 500"
  by (simp add: run_response_def status_def split: run_result.splits option.splits)

lemma upload_audio_probe_fail:
  "check_ffmpeg e \<noteq> Inr True \<Longrightarrow>
   (\<exists>m. fst (upload_audio e req st) = JsonResponse (ErrorJson m) 500) \<and>
   files (snd (upload_audio e req st)) = files st \<and>
   timers (snd (upload_audio e req st)) = timers st"
  by (cases "check_ffmpeg e") (simp_all add: upload_audio_def try_probe_fail)

lemma upload_audio_absent:
  "check_ffmpeg e = Inr False \<Longrightarrow>
   fst (upload_audio e req st) =
     JsonResponse (ErrorJson ''FFmpeg is not installed on the server. Please install FFmpeg.'') 500"
  by (simp add: upload_audio_def try_probe_fail)

lemma upload_audio_too_large:
  "check_ffmpeg e = Inr True \<Longrightarrow> MAX_CONTENT_LENGTH < req_content_length req \<Longrightarrow>
   fst (upload_audio e req st) =
     JsonResponse (ErrorJson (''Server error: '' @ str_exn e RequestEntityTooLarge)) 500 \<and>
   files (snd (upload_audio e req st)) = files st \<and>
   timers (snd (upload_audio e req st)) = timers st"
  by (simp add: upload_audio_def try_too_large)

lemma upload_audio_no_audio:
  "request_read e req \<Longrightarrow> req_audio req = None \<Longrightarrow>
   fst (upload_audio e req st) = JsonResponse (ErrorJson ''No audio file provided'') 400 \<and>
   files (snd (upload_audio e req st)) = files st \<and>
   timers (snd (upload_audio e req st)) = timers st"
  by (simp add: upload_audio_def try_no_audio)

lemma upload_audio_no_name:
  "request_read e req \<Longrightarrow> req_audio req = Some ([], d) \<Longrightarrow>
   fst (upload_audio e req st) = JsonResponse (ErrorJson ''No file selected'') 400 \<and>
   files (snd (upload_audio e req st)) = files st \<and>
   timers (snd (upload_audio e req st)) = timers st"
  by (simp add: upload_audio_def try_no_name)

lemma upload_audio_bad_format:
  "request_read e req \<Longrightarrow> req_audio req = Some (n, d) \<Longrightarrow> n \<noteq> [] \<Longrightarrow>
   form_format req \<notin> set [''mp3'', ''wav''] \<Longrightarrow>
   fst (upload_audio e req st) = JsonResponse (ErrorJson ''Invalid format. Use mp3 or wav'') 400 \<and>
   files (snd (upload_audio e req st)) = files st \<and>
   timers (snd (upload_audio e req st)) = timers st"
  by (simp add: upload_audio_def try_bad_format)

lemma upload_audio_valid_ex:
  assumes "request_read e req" "req_audio req = Some (n, d)" "n \<noteq> []"
      "form_format req \<in> set [''mp3'', ''wav'']"
  obtains cmd res fs' where
    "ffmpeg_cmd (temp_input_path e) (os_path_join UPLOAD_FOLDER (output_name e (form_format req)))
       (form_format req) (form_quality req) = Some cmd"
    "subprocess_run e cmd ((files st)(temp_input_path e \<mapsto> d)) = (res, fs')"
    "files (snd (upload_audio e req st)) = fs'(temp_input_path e := None)"
    "timers (snd (upload_audio e req st)) = timers st"
    "fst (upload_audio e req st) = run_response e req res fs'"
proof -
  obtain cmd where c: "ffmpeg_cmd (temp_input_path e)
       (os_path_join UPLOAD_FOLDER (output_name e (form_format req)))
       (form_format req) (form_quality req) = Some cmd"
    using ffmpeg_cmd_valid[OF assms(4)] by blast
  obtain res fs' where r: "subprocess_run e cmd ((files st)(temp_input_path e \<mapsto> d)) = (res, fs')"
    by (cases "subprocess_run e cmd ((files st)(temp_input_path e \<mapsto> d))")
  from upload_audio_valid[OF assms c r] c r that show thesis by blast
qed

lemma upload_audio_timers: "timers (snd (upload_audio e req st)) = timers st"
proof (cases "check_ffmpeg e = Inr True")
  case False
  then show ?thesis by (simp add: upload_audio_probe_fail)
next
  case c: True
  show ?thesis
  proof (cases "req_content_length req \<le> MAX_CONTENT_LENGTH")
    case False
    with c show ?thesis by (simp add: upload_audio_too_large)
  next
    case True
    with c have p: "request_read e req" by (simp add: request_read_def)
    show ?thesis
    proof (cases "req_audio req")
      case None
      with p show ?thesis by (simp add: upload_audio_no_audio)
    next
      case (Some a)
      obtain n d where a: "req_audio req = Some (n, d)" using Some by (cases a) simp
      show ?thesis
      proof (cases "n = []")
        case True
        with p a show ?thesis by (simp add: upload_audio_no_name)
      next
        case n: False
        show ?thesis
        proof (cases "form_format req \<in> set [''mp3'', ''wav'']")
          case False
          with p a n show ?thesis using upload_audio_bad_format[of e req n d st] by simp
        next
          case True
          from upload_audio_valid_ex[OF p a n True, of st] show ?thesis by metis
        qed
      qed
    qed
  qed
qed

lemma upload_status_400:
  "(status (fst (upload_audio e req st)) = 400) =
     (check_ffmpeg e = Inr True \<and> req_content_length req \<le> MAX_CONTENT_LENGTH \<and>
      (req_audio req = None \<or> (\<exists>d. req_audio req = Some ([], d)) \<or>
       form_format req \<notin> set [''mp3'', ''wav'']))"
proof (cases "check_ffmpeg e = Inr True")
  case False
  then show ?thesis using upload_audio_probe_fail[of e req st] by (auto simp: status_def)
next
  case c: True
  show ?thesis
  proof (cases "req_content_length req \<le> MAX_CONTENT_LENGTH")
    case False
    with c show ?thesis using upload_audio_too_large[of e req st] by (simp add: status_def)
  next
    case s: True
    with c have p: "request_read e req" by (simp add: request_read_def)
    show ?thesis
    proof (cases "req_audio req")
      case None
      with p c s show ?thesis by (simp add: upload_audio_no_audio status_def)
    next
      case (Some a)
      obtain n d where a: "req_audio req = Some (n, d)" using Some by (cases a) simp
      show ?thesis
      proof (cases "n = []")
        case True
        with p c s a show ?thesis by (simp add: upload_audio_no_name status_def)
      next
        case n: False
        show ?thesis
        proof (cases "form_format req \<in> set [''mp3'', ''wav'']")
          case False
          with p c s a n show ?thesis
            using upload_audio_bad_format[of e req n d st] by (simp add: status_def)
        next
          case True
          obtain res fs' where "fst (upload_audio e req st) = run_response e req res fs'"
            using upload_audio_valid_ex[OF p a n True, of st] by metis
          then have "status (fst (upload_audio e req st)) \<noteq> 400"
            using status_run_response[of e req res fs'] by auto
          with c s a n True show ?thesis by simp
        qed
      qed
    qed
  qed
qed

lemma staged_state_files [simp]:
  "files (staged_state e req n d st) = (files st)(temp_input_path e \<mapsto> d)"
  by (simp add: staged_state_def)

lemma upload_audio_failure_state:
  assumes p: "request_read e req"
      and a: "req_audio req = Some (n, d)"
      and n: "n \<noteq> []"
      and f: "form_format req \<in> set [''mp3'', ''wav'']"
      and x: "fst (convert_audio e (temp_input_path e)
                (os_path_join UPLOAD_FOLDER (output_name e (form_format req)))
                (form_format req) (form_quality req) (staged_state e req n d st)) = (False, m)"
  shows "printed (snd (upload_audio e req st)) =
           printed (cleanup_input e (temp_input_path e)
             (snd (convert_audio e (temp_input_path e)
                (os_path_join UPLOAD_FOLDER (output_name e (form_format req)))
                (form_format req) (form_quality req) (staged_state e req n d st))))
           @ [''Conversion failed: '' @ m]"
  unfolding upload_audio_def try_valid[OF p a n f] Let_def staged_state_def[symmetric]
  using x by simp

lemma convert_audio_prints_stderr:
  assumes "os_path_exists (files st) input_path"
      and "ffmpeg_cmd input_path output_path format_type quality = Some cmd"
      and "subprocess_run e cmd (files st) = (CompletedProcess rc out err, fs')"
      and "err \<noteq> []"
  shows "''FFmpeg stderr: '' @ err
           \<in> set (printed (snd (convert_audio e input_path output_path format_type quality st)))"
  using assms getsize_exists[of fs' output_path e]
  by (auto simp: convert_audio_def Let_def convert_audio_except_def split: sum.splits exn.splits)

lemma cleanup_input_printed:
  "x \<in> set (printed st) \<Longrightarrow> x \<in> set (printed (cleanup_input e p st))"
  by (auto simp: cleanup_input_def split: sum.splits)

lemma check_ffmpeg_ok: "ffmpeg_version e = CompletedProcess 0 v w \<Longrightarrow> check_ffmpeg e = Inr True"
  by (simp add: check_ffmpeg_def)

lemma example_request [simp]:
  "req_audio req_mp3 = Some (''blob'', ''webmdata'')"
  "form_format req_mp3 = ''mp3''" "form_quality req_mp3 = ''128''"
  by (simp_all add: req_mp3_def form_format_def form_quality_def)

lemma example_size [simp]:
  "req_content_length req_mp3 \<le> MAX_CONTENT_LENGTH"
  "req_content_length req_ogg \<le> MAX_CONTENT_LENGTH"
  "req_content_length req_high \<le> MAX_CONTENT_LENGTH"
  "MAX_CONTENT_LENGTH < req_content_length req_oversize"
  by (simp_all add: req_mp3_def req_ogg_def req_high_def req_oversize_def MAX_CONTENT_LENGTH_def)

lemma example_valid: "ffmpeg_version e = CompletedProcess 0 v w \<Longrightarrow> valid_upload e req_mp3"
  by (simp add: valid_upload_def check_ffmpeg_ok)

lemma example_read: "ffmpeg_version e = CompletedProcess 0 v w \<Longrightarrow> request_read e req_mp3"
  by (simp add: request_read_def check_ffmpeg_ok)

lemma example_temp:
  "uuid4 e = ''1b9d6bcd-bbfd-4b2d-9b5d-ab8dfbbd4bed'' \<Longrightarrow>
   temp_input_path e = ''static/temp/temp_1b9d6bcd.webm''"
  by (simp add: temp_input_path_eq unique_id_def)

lemma example_output:
  "uuid4 e = ''1b9d6bcd-bbfd-4b2d-9b5d-ab8dfbbd4bed'' \<Longrightarrow> now e = ''20240101_120000'' \<Longrightarrow>
   os_path_join UPLOAD_FOLDER (output_name e ''mp3'') =
     ''static/temp/recording_20240101_120000_1b9d6bcd.mp3''"
  by (simp add: output_path_eq unique_id_def)

lemma example_cmd:
  "ffmpeg_cmd ''static/temp/temp_1b9d6bcd.webm''
     ''static/temp/recording_20240101_120000_1b9d6bcd.mp3'' ''mp3'' ''128'' = Some mp3_cmd"
  by (simp add: ffmpeg_cmd_def mp3_cmd_def)

lemma last_mp3_cmd [simp]: "last mp3_cmd = ''static/temp/recording_20240101_120000_1b9d6bcd.mp3''"
  by (simp add: mp3_cmd_def)

lemma example_envs [simp]:
  "ffmpeg_version env_ok = CompletedProcess 0 ''ffmpeg version 6.0'' []"
  "ffmpeg_version env_fail = CompletedProcess 0 ''ffmpeg version 6.0'' []"
  "ffmpeg_version env_no_output = CompletedProcess 0 ''ffmpeg version 6.0'' []"
  "ffmpeg_version env_timeout = CompletedProcess 0 ''ffmpeg version 6.0'' []"
  "ffmpeg_version env_absent = Raised (FileNotFoundError ''ffmpeg'')"
  "uuid4 env_ok = ''1b9d6bcd-bbfd-4b2d-9b5d-ab8dfbbd4bed''"
  "uuid4 env_fail = ''1b9d6bcd-bbfd-4b2d-9b5d-ab8dfbbd4bed''"
  "uuid4 env_no_output = ''1b9d6bcd-bbfd-4b2d-9b5d-ab8dfbbd4bed''"
  "uuid4 env_timeout = ''1b9d6bcd-bbfd-4b2d-9b5d-ab8dfbbd4bed''"
  "now env_ok = ''20240101_120000''"
  "now env_fail = ''20240101_120000''"
  "now env_no_output = ''20240101_120000''"
  "now env_timeout = ''20240101_120000''"
  by (simp_all add: env_ok_def env_fail_def env_no_output_def env_timeout_def env_absent_def)

lemma example_runs [simp]:
  "subprocess_run env_ok cmd fs = (CompletedProcess 0 [] ''size=1kB'', fs(last cmd \<mapsto> ''ID3abc''))"
  "subprocess_run env_fail cmd fs =
     (CompletedProcess 1 []
        ''static/temp/temp_1b9d6bcd.webm: Invalid data found when processing input'', fs)"
  "subprocess_run env_timeout cmd fs = (Raised TimeoutExpired, fs(last cmd \<mapsto> ''RIFF''))"
  by (simp_all add: env_ok_def env_fail_def env_timeout_def)

lemma example_upload:
  assumes v: "ffmpeg_version e = CompletedProcess 0 v w"
      and u: "uuid4 e = ''1b9d6bcd-bbfd-4b2d-9b5d-ab8dfbbd4bed''"
      and t: "now e = ''20240101_120000''"
      and r: "subprocess_run e mp3_cmd [''static/temp/temp_1b9d6bcd.webm'' \<mapsto> ''webmdata'']
                = (res, fs')"
  shows "fst (upload_audio e req_mp3 st_empty) = run_response e req_mp3 res fs'"
    and "files (snd (upload_audio e req_mp3 st_empty)) = fs'(''static/temp/temp_1b9d6bcd.webm'' := None)"
proof -
  have c: "ffmpeg_cmd (temp_input_path e)
             (os_path_join UPLOAD_FOLDER (output_name e (form_format req_mp3)))
             (form_format req_mp3) (form_quality req_mp3) = Some mp3_cmd"
    by (simp add: example_temp[OF u] example_output[OF u t] example_cmd)
  have r': "subprocess_run e mp3_cmd ((files st_empty)(temp_input_path e \<mapsto> ''webmdata'')) = (res, fs')"
    using r by (simp add: example_temp[OF u] st_empty_def)
  note h = upload_audio_valid[OF example_read[OF v] example_request(1) _ _ c r']
  show "fst (upload_audio e req_mp3 st_empty) = run_response e req_mp3 res fs'"
    by (rule h(3)) simp_all
  show "files (snd (upload_audio e req_mp3 st_empty)) = fs'(''static/temp/temp_1b9d6bcd.webm'' := None)"
    using h(1) by (simp add: example_temp[OF u])
qed

lemma form_format_ogg: "form_format req_ogg = ''ogg''"
  unfolding form_format_def req_ogg_def by code_simp

lemma check_ffmpeg_absent: "check_ffmpeg env_absent = Inr False"
  by (simp add: check_ffmpeg_def)

lemma set_py_strip: "set (py_strip cs s) \<subseteq> set s"
proof
  fix x
  assume "x \<in> set (py_strip cs s)"
  then have "x \<in> set (dropWhile (\<lambda>c. c \<in> set cs) (rev (dropWhile (\<lambda>c. c \<in> set cs) s)))"
    by (simp add: py_strip_def)
  then have "x \<in> set (rev (dropWhile (\<lambda>c. c \<in> set cs) s))"
    by (rule set_dropWhileD)
  then have "x \<in> set (dropWhile (\<lambda>c. c \<in> set cs) s)"
    by simp
  then show "x \<in> set s"
    by (rule set_dropWhileD)
qed



lemma secure_filename_chars: "set (secure_filename e filename) \<subseteq> set filename_ascii"
proof -
  have "set (secure_filename e filename) \<subseteq>
        set (filter (\<lambda>c. c \<in> set filename_ascii)
              (py_join ''_'' (py_split (map (\<lambda>c. if c = CHR ''/'' then CHR '' '' else c)
                 (nfkd_ascii e filename)))))"
    unfolding secure_filename_def Let_def by (rule set_py_strip)
  then show ?thesis by auto
qed

lemma slash_not_allowed: "CHR ''/'' \<notin> set filename_ascii"
  by (simp add: filename_ascii_def)

lemma secure_filename_no_slash: "CHR ''/'' \<notin> set (secure_filename e filename)"
  using secure_filename_chars[of e filename] slash_not_allowed by blast


lemma secure_filename_path:
  "os_path_join UPLOAD_FOLDER (secure_filename e filename) = ''static/temp/'' @ secure_filename e filename"
proof (rule os_path_join_upload)
  show "secure_filename e filename = [] \<or> hd (secure_filename e filename) \<noteq> CHR ''/''"
    using secure_filename_no_slash[of e filename]
    by (cases "secure_filename e filename") auto
qed

lemma is_scratch_dir_name: "is_scratch_dir (''static/temp/'' @ n) = (n = [])"
  by (auto simp: is_scratch_dir_eq)

lemma download_file_at:
  assumes "os_path_join UPLOAD_FOLDER (secure_filename e filename) = p" and "\<not> is_scratch_dir p"
  shows "fst (download_file e filename st) =
           (case files st p of
              None \<Rightarrow> JsonResponse (ErrorJson ''File not found'') 404
            | Some b \<Rightarrow> FileResponse p filename)"
  using assms
  by (simp add: download_file_def Let_def os_path_exists_def send_file_def split: option.splits)

lemma download_file_named:
  assumes "secure_filename e filename \<noteq> []"
  shows "fst (download_file e filename st) =
           (case files st (''static/temp/'' @ secure_filename e filename) of
              None \<Rightarrow> JsonResponse (ErrorJson ''File not found'') 404
            | Some b \<Rightarrow> FileResponse (''static/temp/'' @ secure_filename e filename) filename)"
proof (rule download_file_at)
  show "os_path_join UPLOAD_FOLDER (secure_filename e filename) =
          ''static/temp/'' @ secure_filename e filename"
    by (rule secure_filename_path)
  show "\<not> is_scratch_dir (''static/temp/'' @ secure_filename e filename)"
    using assms by (simp only: is_scratch_dir_name not_False_eq_True)
qed


lemma download_file_state:
  "files (snd (download_file e filename st)) = files st"
  "timers (snd (download_file e filename st)) =
     (if os_path_exists (files st) (os_path_join UPLOAD_FOLDER (secure_filename e filename))
      then timers st @ [(os_path_join UPLOAD_FOLDER (secure_filename e filename), filename)]
      else timers st)"
  by (simp_all add: download_file_def Let_def split: sum.splits)

lemma delete_after_delay_files:
  "files (delete_after_delay e p f st) = (if is_scratch_dir p then files st else (files st)(p := None))"
  by (auto simp: delete_after_delay_def os_remove_def os_path_exists_def split: option.splits)

lemma nfkd_env_ok [simp]: "nfkd_ascii env_ok s = s"
  by (simp add: env_ok_def)




lemma upload_folder_append: "UPLOAD_FOLDER @ ''/'' @ n = ''static/temp/'' @ n"
  by (simp add: UPLOAD_FOLDER_def)

lemma sanitise_plain:
  "secure_filename env_ok ''recording_20240101_120000_1b9d6bcd.mp3'' =
     ''recording_20240101_120000_1b9d6bcd.mp3''"
  unfolding secure_filename_def nfkd_env_ok Let_def by code_simp

lemma split_from_nospace:
  "\<forall>c\<in>set s. \<not> py_isspace c \<Longrightarrow> split_from w s = (if w @ s = [] then [] else [w @ s])"
  by (induction s arbitrary: w) auto

lemma py_split_nospace:
  "s \<noteq> [] \<Longrightarrow> \<forall>c\<in>set s. \<not> py_isspace c \<Longrightarrow> py_split s = [s]"
  by (simp add: py_split_def split_from_nospace)

lemma dropWhile_hd: "s \<noteq> [] \<Longrightarrow> \<not> P (hd s) \<Longrightarrow> dropWhile P s = s"
  by (cases s) auto

lemma py_strip_id:
  assumes "s \<noteq> []" "hd s \<notin> set cs" "last s \<notin> set cs"
  shows "py_strip cs s = s"
proof -
  have 1: "dropWhile (\<lambda>c. c \<in> set cs) s = s"
    using assms(1,2) by (rule dropWhile_hd)
  have 2: "dropWhile (\<lambda>c. c \<in> set cs) (rev s) = rev s"
    using assms(1,3) by (intro dropWhile_hd) (simp_all add: hd_rev)
  show ?thesis by (simp add: py_strip_def 1 2)
qed

lemma allowed_not_space: "list_all (\<lambda>c. \<not> py_isspace c) filename_ascii"
  by code_simp

lemma secure_filename_id:
  assumes k: "nfkd_ascii e s = s" and ne: "s \<noteq> []"
      and a: "set s \<subseteq> set filename_ascii"
      and h: "hd s \<notin> set ''._''" and l: "last s \<notin> set ''._''"
  shows "secure_filename e s = s"
proof -
  have ns: "\<forall>c\<in>set s. \<not> py_isspace c"
    using a allowed_not_space by (auto simp: list_all_iff)
  have sl: "CHR ''/'' \<notin> set s"
    using a slash_not_allowed by blast
  have 1: "map (\<lambda>c. if c = CHR ''/'' then CHR '' '' else c) s = s"
    using sl by (induction s) auto
  have 2: "py_join ''_'' (py_split s) = s"
    by (simp add: py_split_nospace[OF ne ns])
  have 3: "filter (\<lambda>c. c \<in> set filename_ascii) s = s"
    using a by (auto simp: filter_id_conv)
  show ?thesis
    unfolding secure_filename_def Let_def k 1 2 3 by (rule py_strip_id[OF ne h l])
qed

lemma hex_allowed: "list_all (\<lambda>c. c \<in> set filename_ascii) ''0123456789abcdef-''"
  by code_simp

lemma stamp_allowed: "list_all (\<lambda>c. c \<in> set filename_ascii) ''0123456789_''"
  by code_simp

lemma fixed_allowed:
  "list_all (\<lambda>c. c \<in> set filename_ascii) ''recording_''"
  "list_all (\<lambda>c. c \<in> set filename_ascii) ''_''"
  "list_all (\<lambda>c. c \<in> set filename_ascii) ''.mp3''"
  "list_all (\<lambda>c. c \<in> set filename_ascii) ''.wav''"
  by code_simp+

lemma output_name_allowed:
  assumes u: "set (uuid4 e) \<subseteq> set ''0123456789abcdef-''"
      and t: "set (now e) \<subseteq> set ''0123456789_''"
      and f: "f \<in> set [''mp3'', ''wav'']"
  shows "set (output_name e f) \<subseteq> set filename_ascii"
proof -
  have "set (unique_id e) \<subseteq> set (uuid4 e)"
    unfolding unique_id_def by (rule set_take_subset)
  with u hex_allowed have 1: "set (unique_id e) \<subseteq> set filename_ascii"
    unfolding list_all_iff by blast
  from t stamp_allowed have 2: "set (now e) \<subseteq> set filename_ascii"
    unfolding list_all_iff by blast
  from f fixed_allowed have 3: "set (''recording_'') \<subseteq> set filename_ascii"
    "set ''_'' \<subseteq> set filename_ascii" "set (''.'' @ f) \<subseteq> set filename_ascii"
    unfolding list_all_iff by auto
  have "set (output_name e f) =
          set ''recording_'' \<union> set (now e) \<union> set ''_'' \<union> set (unique_id e) \<union> set (''.'' @ f)"
    by (simp only: output_name_def set_append Un_assoc append_assoc)
  with 1 2 3 show ?thesis by blast
qed

lemma output_name_ends:
  assumes "f \<in> set [''mp3'', ''wav'']"
  shows "output_name e f \<noteq> []" "hd (output_name e f) \<notin> set ''._''"
    "last (output_name e f) \<notin> set ''._''"
  using assms by (auto simp: output_name_def)

lemma secure_output_name:
  assumes "nfkd_ascii e2 (output_name e f) = output_name e f"
      and "set (uuid4 e) \<subseteq> set ''0123456789abcdef-''"
      and "set (now e) \<subseteq> set ''0123456789_''"
      and "f \<in> set [''mp3'', ''wav'']"
  shows "secure_filename e2 (output_name e f) = output_name e f"
proof -
  note n = output_name_ends[OF assms(4), of e]
  note a = output_name_allowed[OF assms(2,3,4)]
  show ?thesis by (rule secure_filename_id[OF assms(1) n(1) a n(2) n(3)])
qed

lemma run_response_success:
  assumes "run_response e req res fs' = JsonResponse (DataJson rd) k"
  obtains b where "fs' (os_path_join UPLOAD_FOLDER (output_name e (form_format req))) = Some b"
    and "rd = success_data e req (length b)"
  using assms
  by (auto simp: run_response_def split: run_result.splits option.splits if_splits)

section \<open>The claims\<close>

subsection \<open>Who starts the deletion thread\<close>

text \<open>
  Claim C1, as the code has it. The deletion thread is started by \<^verbatim>\<open>download_file\<close>, not by
  the upload: \<^verbatim>\<open>upload_audio\<close> leaves the pending threads as they were, on every path. A
  download request starts one thread exactly when the sanitised path exists, and returns
  with the files untouched, so it does not wait for the thread. When the thread wakes, the
  file at its path is gone afterwards, whether or not it was still there.
\<close>

theorem expiry_timer_armed_by_download:
  "timers (snd (upload_audio e req st)) = timers st \<and>
   timers (snd (download_file e filename st)) =
     (if os_path_exists (files st) (os_path_join UPLOAD_FOLDER (secure_filename e filename))
      then timers st @ [(os_path_join UPLOAD_FOLDER (secure_filename e filename), filename)]
      else timers st) \<and>
   files (snd (download_file e filename st)) = files st \<and>
   fire_timer e (st\<lparr>timers := (file_path, f) # ts\<rparr>) =
     delete_after_delay e file_path f (st\<lparr>timers := ts\<rparr>) \<and>
   files (delete_after_delay e file_path f st) =
     (if is_scratch_dir file_path then files st else (files st)(file_path := None)) \<and>
   timers (delete_after_delay e file_path f st) = timers st"
proof -
  have "timers (delete_after_delay e file_path f st) = timers st"
    by (simp add: delete_after_delay_def split: sum.splits)
  then show ?thesis
    by (simp add: upload_audio_timers download_file_state delete_after_delay_files fire_timer_def)
qed

text \<open>
  The store after a successful upload, one download of the converted file and the end of
  the thread's sleep.
\<close>

theorem expiry_timer_armed_by_download_witness:
  "timers (snd (download_file env_ok ''recording_20240101_120000_1b9d6bcd.mp3'' st_served)) =
     [(''static/temp/recording_20240101_120000_1b9d6bcd.mp3'',
       ''recording_20240101_120000_1b9d6bcd.mp3'')] \<and>
   files (delete_after_delay env_ok ''static/temp/recording_20240101_120000_1b9d6bcd.mp3''
            ''recording_20240101_120000_1b9d6bcd.mp3''
            (snd (download_file env_ok ''recording_20240101_120000_1b9d6bcd.mp3'' st_served))) =
     Map.empty"
proof -
  let ?n = "''recording_20240101_120000_1b9d6bcd.mp3''"
  let ?p = "''static/temp/recording_20240101_120000_1b9d6bcd.mp3''"
  have j: "os_path_join UPLOAD_FOLDER (secure_filename env_ok ?n) = ?p"
    by (simp add: sanitise_plain os_path_join_def UPLOAD_FOLDER_def)
  have x: "os_path_exists (files st_served) ?p"
    by (simp add: os_path_exists_def st_served_def)
  have d: "\<not> is_scratch_dir ?p"
    by (simp add: is_scratch_dir_eq)
  have f: "files st_served = [?p \<mapsto> ''ID3abc'']" and t: "timers st_served = []"
    by (simp_all add: st_served_def)
  note a = expiry_timer_armed_by_download[where e = env_ok and filename = ?n and st = st_served]
  note b = expiry_timer_armed_by_download[where e = env_ok and file_path = ?p and f = ?n
      and st = "snd (download_file env_ok ?n st_served)"]
  have 1: "timers (snd (download_file env_ok ?n st_served)) = [(?p, ?n)]"
    using a[THEN conjunct2, THEN conjunct1] x by (simp only: j if_True t append_Nil)
  have 2: "files (snd (download_file env_ok ?n st_served)) = [?p \<mapsto> ''ID3abc'']"
    using a[THEN conjunct2, THEN conjunct2, THEN conjunct1] by (simp only: f)
  have 3: "files (delete_after_delay env_ok ?p ?n (snd (download_file env_ok ?n st_served))) = Map.empty"
    using b[THEN conjunct2, THEN conjunct2, THEN conjunct2, THEN conjunct2, THEN conjunct1] d
    by (simp add: 2)
  from 1 3 show ?thesis by simp
qed

text \<open>
  The claim as the specification states it (the thread is started when the conversion
  reports success) fails: after a successful upload no thread is pending, and nothing that
  wakes can delete the converted file.
\<close>

theorem upload_arms_no_timer_cex:
  "status (fst (upload_audio env_ok req_mp3 st_empty)) = 200 \<and>
   files (snd (upload_audio env_ok req_mp3 st_empty))
     ''static/temp/recording_20240101_120000_1b9d6bcd.mp3'' = Some ''ID3abc'' \<and>
   timers (snd (upload_audio env_ok req_mp3 st_empty)) = [] \<and>
   fire_timer env_ok (snd (upload_audio env_ok req_mp3 st_empty)) =
     snd (upload_audio env_ok req_mp3 st_empty)"
proof -
  have t: "timers (snd (upload_audio env_ok req_mp3 st_empty)) = []"
    by (simp add: upload_audio_timers st_empty_def)
  have s: "status (fst (upload_audio env_ok req_mp3 st_empty)) = 200"
    by (simp add: example_upload(1)[of env_ok] run_response_def status_def example_output)
  have f: "files (snd (upload_audio env_ok req_mp3 st_empty))
     ''static/temp/recording_20240101_120000_1b9d6bcd.mp3'' = Some ''ID3abc''"
    by (simp add: example_upload(2)[of env_ok])
  show ?thesis by (simp add: t s f fire_timer_def)
qed

subsection \<open>Classification of a conversion\<close>

text \<open>
  Claim C2. \<^verbatim>\<open>convert_audio\<close> reports success exactly when the external process ran, exited
  with code zero and the output file exists afterwards. The process runs when the input
  exists and the format has a command; an exception of the run (the timeout among them) is
  never a success. A run that exits with code zero and leaves no output file is reported as
  the failure \<^verbatim>\<open>FFmpeg error: \<close> followed by the diagnostic stream, the same report as for a
  code other than zero.
\<close>

theorem convert_audio_success_iff:
  "fst (fst (convert_audio e input_path output_path format_type quality st)) =
     (os_path_exists (files st) input_path \<and>
      (case ffmpeg_cmd input_path output_path format_type quality of
         None \<Rightarrow> False
       | Some cmd \<Rightarrow>
           (case subprocess_run e cmd (files st) of
              (CompletedProcess rc out err, fs') \<Rightarrow> rc = 0 \<and> os_path_exists fs' output_path
            | (Raised x, fs') \<Rightarrow> False)))
   \<and>
   (os_path_exists (files st) input_path \<longrightarrow>
    ffmpeg_cmd input_path output_path format_type quality = Some cmd \<longrightarrow>
    subprocess_run e cmd (files st) = (CompletedProcess 0 out err, fs') \<longrightarrow>
    \<not> os_path_exists fs' output_path \<longrightarrow>
    fst (convert_audio e input_path output_path format_type quality st) =
      (False, ''FFmpeg error: '' @ err))"
proof (intro conjI impI)
  show "fst (fst (convert_audio e input_path output_path format_type quality st)) =
     (os_path_exists (files st) input_path \<and>
      (case ffmpeg_cmd input_path output_path format_type quality of
         None \<Rightarrow> False
       | Some cmd \<Rightarrow>
           (case subprocess_run e cmd (files st) of
              (CompletedProcess rc out err, fs') \<Rightarrow> rc = 0 \<and> os_path_exists fs' output_path
            | (Raised x, fs') \<Rightarrow> False)))"
  proof (cases "os_path_exists (files st) input_path")
    case False
    then show ?thesis by (simp add: convert_audio_no_input)
  next
    case ex: True
    show ?thesis
    proof (cases "ffmpeg_cmd input_path output_path format_type quality")
      case None
      with ex show ?thesis by (simp add: convert_audio_no_cmd)
    next
      case (Some c)
      obtain res fs2 where r: "subprocess_run e c (files st) = (res, fs2)"
        by (cases "subprocess_run e c (files st)")
      show ?thesis
        using ex Some r convert_audio_run(3)[OF ex Some r]
        by (cases res) simp_all
    qed
  qed
next
  assume ex: "os_path_exists (files st) input_path"
    and c: "ffmpeg_cmd input_path output_path format_type quality = Some cmd"
    and r: "subprocess_run e cmd (files st) = (CompletedProcess 0 out err, fs')"
    and m: "\<not> os_path_exists fs' output_path"
  show "fst (convert_audio e input_path output_path format_type quality st) =
      (False, ''FFmpeg error: '' @ err)"
    using convert_audio_run(3)[OF ex c r] m by simp
qed

text \<open>
  A run on the stored recording that exits with code zero and writes nothing.
\<close>

theorem convert_audio_success_iff_witness:
  "fst (convert_audio env_no_output ''static/temp/temp_1b9d6bcd.webm''
          ''static/temp/recording_20240101_120000_1b9d6bcd.mp3'' ''mp3'' ''128'' st_staged) =
     (False, ''FFmpeg error: Output file is empty, nothing was encoded'')"
proof -
  have ex: "os_path_exists (files st_staged) ''static/temp/temp_1b9d6bcd.webm''"
    by (simp add: os_path_exists_def st_staged_def)
  have c: "ffmpeg_cmd ''static/temp/temp_1b9d6bcd.webm''
             ''static/temp/recording_20240101_120000_1b9d6bcd.mp3'' ''mp3'' ''128'' = Some mp3_cmd"
    by (simp add: ffmpeg_cmd_def mp3_cmd_def)
  have r: "subprocess_run env_no_output mp3_cmd (files st_staged) =
             (CompletedProcess 0 [] ''Output file is empty, nothing was encoded'', files st_staged)"
    by (simp add: env_no_output_def)
  have m: "\<not> os_path_exists (files st_staged)
               ''static/temp/recording_20240101_120000_1b9d6bcd.mp3''"
    by (simp add: os_path_exists_def st_staged_def is_scratch_dir_eq)
  note t = convert_audio_success_iff[of env_no_output "''static/temp/temp_1b9d6bcd.webm''"
      "''static/temp/recording_20240101_120000_1b9d6bcd.mp3''" "''mp3''" "''128''" st_staged
      mp3_cmd "[]" "''Output file is empty, nothing was encoded''" "files st_staged"]
  from t[THEN conjunct2, rule_format, OF ex c r m] show ?thesis by simp
qed

subsection \<open>The stored input is removed\<close>

text \<open>
  Claim C3. In every request that reaches the conversion (the transcoder is available, the
  body is within the limit and is read, the part \<^verbatim>\<open>audio\<close> has a file name, the format is
  \<^verbatim>\<open>mp3\<close> or \<^verbatim>\<open>wav\<close>), whatever the transcoder's run does and returns, the stored input is
  not among the files when the response is produced.
\<close>

theorem staged_input_removed:
  "valid_upload e req \<Longrightarrow>
   files (snd (upload_audio e req st)) (temp_input_path e) = None \<and>
   \<not> os_path_exists (files (snd (upload_audio e req st))) (temp_input_path e)"
proof -
  assume v: "valid_upload e req"
  from v obtain n d where p: "request_read e req" and a: "req_audio req = Some (n, d)"
    and n: "n \<noteq> []" and f: "form_format req \<in> set [''mp3'', ''wav'']"
    by (rule valid_uploadD)
  from upload_audio_valid_ex[OF p a n f, of st]
  obtain fs' where "files (snd (upload_audio e req st)) = fs'(temp_input_path e := None)"
    by metis
  then show ?thesis by (simp add: os_path_exists_def)
qed

text \<open>
  A request whose conversion fails.
\<close>

theorem staged_input_removed_witness:
  "valid_upload env_fail req_mp3 \<and>
   files (snd (upload_audio env_fail req_mp3 st_empty)) ''static/temp/temp_1b9d6bcd.webm'' = None \<and>
   status (fst (upload_audio env_fail req_mp3 st_empty)) = 500"
proof -
  have v: "valid_upload env_fail req_mp3" by (rule example_valid) simp
  have s: "status (fst (upload_audio env_fail req_mp3 st_empty)) = 500"
    by (simp add: example_upload(1)[of env_fail] run_response_def status_def)
  from staged_input_removed[OF v, of st_empty] v s show ?thesis
    by (simp add: example_temp)
qed

subsection \<open>The reported size is the size of the file the link delivers\<close>

text \<open>
  Claim C4. For a valid upload answered with status 200, the link of the response is
  \<^verbatim>\<open>/download/\<close> followed by the file name of the response, and in the state after the upload,
  or any later state in which the file at the output path is the same, a download of that
  name delivers the file at the output path, whose number of bytes is the one the response
  reports: \<^verbatim>\<open>file_size\<close> is that number in the rendering of line 149, megabytes rounded to
  two places, followed by \<^verbatim>\<open> MB\<close>. This holds when the text of the random identifier has
  hexadecimal digits and hyphens only, the time stamp digits and underscores only, and
  normalisation leaves the file name, which is ASCII, unchanged.
\<close>

theorem download_size_matches_report:
  assumes v: "valid_upload e req"
      and ok: "fst (upload_audio e req st) = JsonResponse (DataJson rd) 200"
      and u: "set (uuid4 e) \<subseteq> set ''0123456789abcdef-''"
      and t: "set (now e) \<subseteq> set ''0123456789_''"
      and k: "nfkd_ascii e2 (r_filename rd) = r_filename rd"
      and same: "files st2 (UPLOAD_FOLDER @ ''/'' @ r_filename rd) =
                 files (snd (upload_audio e req st)) (UPLOAD_FOLDER @ ''/'' @ r_filename rd)"
  shows "r_download_url rd = ''/download/'' @ r_filename rd \<and>
         (\<exists>b. files st2 (UPLOAD_FOLDER @ ''/'' @ r_filename rd) = Some b \<and>
              fst (download_file e2 (r_filename rd) st2) =
                FileResponse (UPLOAD_FOLDER @ ''/'' @ r_filename rd) (r_filename rd) \<and>
              r_file_size rd = str_round_mb e (length b) @ '' MB'')"
proof -
  let ?name = "output_name e (form_format req)"
  let ?out = "os_path_join UPLOAD_FOLDER ?name"
  from v obtain n d where p: "request_read e req" and a: "req_audio req = Some (n, d)"
    and n: "n \<noteq> []" and f: "form_format req \<in> set [''mp3'', ''wav'']"
    by (rule valid_uploadD)
  from upload_audio_valid_ex[OF p a n f, of st]
  obtain res fs' where fl: "files (snd (upload_audio e req st)) = fs'(temp_input_path e := None)"
    and rs: "fst (upload_audio e req st) = run_response e req res fs'"
    by metis
  from rs ok have "run_response e req res fs' = JsonResponse (DataJson rd) 200" by simp
  then obtain b where b: "fs' ?out = Some b" and rd: "rd = success_data e req (length b)"
    by (rule run_response_success)
  have nm: "r_filename rd = ?name" and url: "r_download_url rd = ''/download/'' @ r_filename rd"
    and sz: "r_file_size rd = str_round_mb e (length b) @ '' MB''"
    by (simp_all add: rd success_data_def)
  have pth: "UPLOAD_FOLDER @ ''/'' @ ?name = ?out"
    unfolding upload_folder_append output_path_eq by (simp add: output_name_def)
  have here: "files (snd (upload_audio e req st)) ?out = Some b"
    by (simp add: fl b)
  have there: "files st2 ?out = Some b"
    using same here by (simp only: nm pth)
  have sec: "secure_filename e2 ?name = ?name"
    using k by (intro secure_output_name[OF _ u t f]) (simp only: nm)
  have ne: "secure_filename e2 ?name \<noteq> []"
    using output_name_ends(1)[OF f, of e] by (simp only: sec not_False_eq_True)
  have o2: "''static/temp/'' @ ?name = ?out"
    using pth by (simp only: upload_folder_append)
  have dl: "fst (download_file e2 ?name st2) = FileResponse ?out ?name"
    using download_file_named[OF ne, of st2] there by (simp only: sec o2 option.case)
  show ?thesis
    using url sz there dl by (simp only: nm pth) blast
qed

text \<open>
  The upload of six bytes of output and the download that follows it.
\<close>

theorem download_size_matches_report_witness:
  "fst (upload_audio env_ok req_mp3 st_empty) =
     JsonResponse (DataJson
       \<lparr>r_success = True,
        r_filename = ''recording_20240101_120000_1b9d6bcd.mp3'',
        r_file_size = ''0.0 MB'',
        r_download_url = ''/download/recording_20240101_120000_1b9d6bcd.mp3'',
        r_format = ''MP3'',
        r_quality = ''128 kbps''\<rparr>) 200 \<and>
   files (snd (upload_audio env_ok req_mp3 st_empty))
     ''static/temp/recording_20240101_120000_1b9d6bcd.mp3'' = Some ''ID3abc'' \<and>
   fst (download_file env_ok ''recording_20240101_120000_1b9d6bcd.mp3''
          (snd (upload_audio env_ok req_mp3 st_empty))) =
     FileResponse ''static/temp/recording_20240101_120000_1b9d6bcd.mp3''
       ''recording_20240101_120000_1b9d6bcd.mp3'' \<and>
   str_round_mb env_ok (length ''ID3abc'') @ '' MB'' = ''0.0 MB''"
proof -
  let ?rd = "\<lparr>r_success = True,
        r_filename = ''recording_20240101_120000_1b9d6bcd.mp3'',
        r_file_size = ''0.0 MB'',
        r_download_url = ''/download/recording_20240101_120000_1b9d6bcd.mp3'',
        r_format = ''MP3'',
        r_quality = ''128 kbps''\<rparr>"
  let ?st = "snd (upload_audio env_ok req_mp3 st_empty)"
  have v: "valid_upload env_ok req_mp3" by (rule example_valid) simp
  have nm: "output_name env_ok ''mp3'' = ''recording_20240101_120000_1b9d6bcd.mp3''"
    by (simp add: output_name_def unique_id_def)
  have mb: "str_round_mb env_ok n = ''0.0''" for n
    by (simp add: env_ok_def)
  have ok: "fst (upload_audio env_ok req_mp3 st_empty) = JsonResponse (DataJson ?rd) 200"
    by (simp add: example_upload(1)[of env_ok] run_response_def success_data_def nm mb
        os_path_join_def UPLOAD_FOLDER_def)
  have f: "files ?st ''static/temp/recording_20240101_120000_1b9d6bcd.mp3'' = Some ''ID3abc''"
    by (simp add: example_upload(2)[of env_ok])
  have u: "set (uuid4 env_ok) \<subseteq> set ''0123456789abcdef-''" by simp
  have t: "set (now env_ok) \<subseteq> set ''0123456789_''" by simp
  have k: "nfkd_ascii env_ok (r_filename ?rd) = r_filename ?rd" by simp
  from download_size_matches_report[OF v ok u t k refl]
  obtain b where b: "files ?st (UPLOAD_FOLDER @ ''/'' @ r_filename ?rd) = Some b"
    and d: "fst (download_file env_ok (r_filename ?rd) ?st) =
              FileResponse (UPLOAD_FOLDER @ ''/'' @ r_filename ?rd) (r_filename ?rd)"
    by blast
  from d have d': "fst (download_file env_ok ''recording_20240101_120000_1b9d6bcd.mp3'' ?st) =
     FileResponse ''static/temp/recording_20240101_120000_1b9d6bcd.mp3''
       ''recording_20240101_120000_1b9d6bcd.mp3''"
    by (simp add: UPLOAD_FOLDER_def)
  show ?thesis using ok f d' by (simp add: mb)
qed

subsection \<open>What a failed conversion tells the caller\<close>

text \<open>
  Claim C5, as the code has it. When the conversion fails, the caller receives status 500
  and the text \<^verbatim>\<open>Conversion failed: \<close> followed by the message of \<^verbatim>\<open>convert_audio\<close>. For a process
  that completed with a code other than zero or without an output file, that message is
  \<^verbatim>\<open>FFmpeg error: \<close> followed by the whole diagnostic stream of the process; the same text is
  the last line printed on the server, and a diagnostic stream that is not empty is also
  printed on a line of its own. For an exception of the run the message is the fixed text
  for a timeout or a missing transcoder, and \<^verbatim>\<open>Conversion error: \<close> with the exception's text
  otherwise.
\<close>

theorem conversion_failure_message:
  assumes "valid_upload e req"
      and "req_audio req = Some (n, d)"
      and "ffmpeg_cmd (temp_input_path e) (os_path_join UPLOAD_FOLDER (output_name e (form_format req)))
             (form_format req) (form_quality req) = Some cmd"
      and "subprocess_run e cmd ((files st)(temp_input_path e \<mapsto> d)) = (res, fs')"
  shows "case res of
           CompletedProcess rc out err \<Rightarrow>
             (rc \<noteq> 0 \<or> fs' (os_path_join UPLOAD_FOLDER (output_name e (form_format req))) = None
              \<longrightarrow>
              fst (upload_audio e req st) =
                JsonResponse (ErrorJson (''Conversion failed: FFmpeg error: '' @ err)) 500 \<and>
              last (printed (snd (upload_audio e req st))) =
                ''Conversion failed: FFmpeg error: '' @ err \<and>
              (err \<noteq> [] \<longrightarrow>
               ''FFmpeg stderr: '' @ err \<in> set (printed (snd (upload_audio e req st)))))
         | Raised x \<Rightarrow>
             fst (upload_audio e req st) =
               JsonResponse (ErrorJson (''Conversion failed: '' @ except_message e x)) 500"
proof (cases res)
  case (Raised x)
  from assms(1,2) have p: "request_read e req" and n: "n \<noteq> []"
    and f: "form_format req \<in> set [''mp3'', ''wav'']"
    by (auto simp: valid_upload_def request_read_def)
  from upload_audio_valid(3)[OF p assms(2) n f assms(3,4)] Raised
  show ?thesis by (simp add: run_response_def)
next
  case (CompletedProcess rc out err)
  let ?tin = "temp_input_path e"
  let ?out = "os_path_join UPLOAD_FOLDER (output_name e (form_format req))"
  let ?conv = "convert_audio e ?tin ?out (form_format req) (form_quality req)
                 (staged_state e req n d st)"
  from assms(1,2) have p: "request_read e req" and n: "n \<noteq> []"
    and f: "form_format req \<in> set [''mp3'', ''wav'']"
    by (auto simp: valid_upload_def request_read_def)
  have r: "subprocess_run e cmd (files (staged_state e req n d st)) = (CompletedProcess rc out err, fs')"
    using assms(4) CompletedProcess by simp
  have ex: "os_path_exists (files (staged_state e req n d st)) ?tin"
    by (simp add: os_path_exists_def)
  {
    assume bad: "rc \<noteq> 0 \<or> fs' ?out = None"
    have resp: "fst (upload_audio e req st) =
                JsonResponse (ErrorJson (''Conversion failed: FFmpeg error: '' @ err)) 500"
      using upload_audio_valid(3)[OF p assms(2) n f assms(3,4)] CompletedProcess bad
      by (auto simp: run_response_def split: option.splits)
    have cv: "fst ?conv = (False, ''FFmpeg error: '' @ err)"
      using convert_audio_run(3)[OF ex assms(3) r] bad by (auto simp: exists_output)
    have pr: "printed (snd (upload_audio e req st)) =
                printed (cleanup_input e ?tin (snd ?conv)) @ [''Conversion failed: '' @ (''FFmpeg error: '' @ err)]"
      by (rule upload_audio_failure_state[OF p assms(2) n f cv])
    have l: "last (printed (snd (upload_audio e req st))) = ''Conversion failed: FFmpeg error: '' @ err"
      by (simp add: pr)
    have s: "err \<noteq> [] \<Longrightarrow> ''FFmpeg stderr: '' @ err \<in> set (printed (snd (upload_audio e req st)))"
      using convert_audio_prints_stderr[OF ex assms(3) r]
      by (simp add: pr cleanup_input_printed)
    note resp l s
  }
  with CompletedProcess show ?thesis by simp
qed

text \<open>
  A transcoder that rejects the input.
\<close>

theorem conversion_failure_message_witness:
  "fst (upload_audio env_fail req_mp3 st_empty) =
     JsonResponse (ErrorJson
       ''Conversion failed: FFmpeg error: static/temp/temp_1b9d6bcd.webm: Invalid data found when processing input'')
       500 \<and>
   last (printed (snd (upload_audio env_fail req_mp3 st_empty))) =
     ''Conversion failed: FFmpeg error: static/temp/temp_1b9d6bcd.webm: Invalid data found when processing input'' \<and>
   ''FFmpeg stderr: static/temp/temp_1b9d6bcd.webm: Invalid data found when processing input''
     \<in> set (printed (snd (upload_audio env_fail req_mp3 st_empty)))"
proof -
  have v: "valid_upload env_fail req_mp3" by (rule example_valid) simp
  have c: "ffmpeg_cmd (temp_input_path env_fail)
             (os_path_join UPLOAD_FOLDER (output_name env_fail (form_format req_mp3)))
             (form_format req_mp3) (form_quality req_mp3) = Some mp3_cmd"
    by (simp add: example_temp example_output example_cmd)
  have r: "subprocess_run env_fail mp3_cmd
             ((files st_empty)(temp_input_path env_fail \<mapsto> ''webmdata'')) =
           (CompletedProcess 1 []
              ''static/temp/temp_1b9d6bcd.webm: Invalid data found when processing input'',
            (files st_empty)(temp_input_path env_fail \<mapsto> ''webmdata''))"
    by simp
  from conversion_failure_message[OF v example_request(1) c r]
  show ?thesis by simp
qed

text \<open>
  The claim as the specification states it (the diagnostic stream is never part of the
  message returned) fails: the response carries the stream, here with the path of the
  stored input.
\<close>

theorem failure_message_has_stderr_cex:
  "fst (upload_audio env_fail req_mp3 st_empty) =
     JsonResponse (ErrorJson (''Conversion failed: FFmpeg error: '' @
       ''static/temp/temp_1b9d6bcd.webm: Invalid data found when processing input'')) 500"
  by (simp add: example_upload(1)[of env_fail] run_response_def)

subsection \<open>Sanitised download names\<close>




subsection \<open>A conversion that times out\<close>

text \<open>
  Claim C7, as the code has it. When the run of the transcoder ends in the timeout, the
  response is status 500 with the text \<^verbatim>\<open>Conversion failed: Conversion timeout\<close>, and afterwards
  the stored input is not among the files. Every other file is as the aborted run left it:
  the upload handler does not remove what the run wrote to the output path.
\<close>

theorem timeout_response_and_files:
  assumes "valid_upload e req"
      and "req_audio req = Some (n, d)"
      and "ffmpeg_cmd (temp_input_path e) (os_path_join UPLOAD_FOLDER (output_name e (form_format req)))
             (form_format req) (form_quality req) = Some cmd"
      and "subprocess_run e cmd ((files st)(temp_input_path e \<mapsto> d)) = (Raised TimeoutExpired, fs')"
  shows "fst (upload_audio e req st) =
           JsonResponse (ErrorJson ''Conversion failed: Conversion timeout'') 500 \<and>
         files (snd (upload_audio e req st)) (temp_input_path e) = None \<and>
         files (snd (upload_audio e req st)) (os_path_join UPLOAD_FOLDER (output_name e (form_format req)))
           = fs' (os_path_join UPLOAD_FOLDER (output_name e (form_format req))) \<and>
         files (snd (upload_audio e req st)) = fs'(temp_input_path e := None)"
proof -
  from assms(1,2) have p: "request_read e req" and n: "n \<noteq> []"
    and f: "form_format req \<in> set [''mp3'', ''wav'']"
    by (auto simp: valid_upload_def request_read_def)
  note h = upload_audio_valid[OF p assms(2) n f assms(3,4)]
  show ?thesis
    by (simp add: h(1) h(3) run_response_def except_message_def)
qed

text \<open>
  A run that wrote four bytes before the timeout.
\<close>

theorem timeout_response_and_files_witness:
  "fst (upload_audio env_timeout req_mp3 st_empty) =
     JsonResponse (ErrorJson ''Conversion failed: Conversion timeout'') 500 \<and>
   files (snd (upload_audio env_timeout req_mp3 st_empty)) ''static/temp/temp_1b9d6bcd.webm'' = None \<and>
   files (snd (upload_audio env_timeout req_mp3 st_empty)) =
     [''static/temp/recording_20240101_120000_1b9d6bcd.mp3'' \<mapsto> ''RIFF'']"
proof -
  have v: "valid_upload env_timeout req_mp3" by (rule example_valid) simp
  have c: "ffmpeg_cmd (temp_input_path env_timeout)
             (os_path_join UPLOAD_FOLDER (output_name env_timeout (form_format req_mp3)))
             (form_format req_mp3) (form_quality req_mp3) = Some mp3_cmd"
    by (simp add: example_temp example_output example_cmd)
  have r: "subprocess_run env_timeout mp3_cmd
             ((files st_empty)(temp_input_path env_timeout \<mapsto> ''webmdata'')) =
           (Raised TimeoutExpired,
            [''static/temp/temp_1b9d6bcd.webm'' \<mapsto> ''webmdata'',
             ''static/temp/recording_20240101_120000_1b9d6bcd.mp3'' \<mapsto> ''RIFF''])"
    by (simp add: example_temp st_empty_def)
  from timeout_response_and_files[OF v example_request(1) c r]
  show ?thesis by (simp add: example_temp fun_upd_twist)
qed

text \<open>
  The claim as the specification states it (no partial output remains) fails: the four
  bytes are still at the output path after the response.
\<close>

theorem timeout_keeps_partial_output_cex:
  "fst (upload_audio env_timeout req_mp3 st_empty) =
     JsonResponse (ErrorJson ''Conversion failed: Conversion timeout'') 500 \<and>
   files (snd (upload_audio env_timeout req_mp3 st_empty))
     ''static/temp/recording_20240101_120000_1b9d6bcd.mp3'' = Some ''RIFF''"
  by (simp add: example_upload[of env_timeout] run_response_def except_message_def)

subsection \<open>Requests answered with status 400\<close>

text \<open>
  Claim C8, as the code has it. The response has status 400 exactly when the transcoder is
  available, the body is within \<^verbatim>\<open>MAX_CONTENT_LENGTH\<close>, and the part \<^verbatim>\<open>audio\<close> is missing, its file
  name is empty, or the format in lower case is neither \<^verbatim>\<open>mp3\<close> nor \<^verbatim>\<open>wav\<close>. Every such
  response has an error body and leaves the files as they were. When the transcoder is
  available, the body is within the limit, the part is present with a file name and the
  format is not offered, the body is \<^verbatim>\<open>Invalid format. Use mp3 or wav\<close>. When the transcoder is not
  available (line 99) or the body is over the limit (the read of line 102 raises, line 168
  answers), the response has status 500 and an error body whatever else the request holds,
  and the files are as they were.
\<close>

theorem upload_400_iff:
  "((status (fst (upload_audio e req st)) = 400) =
      (check_ffmpeg e = Inr True \<and> req_content_length req \<le> MAX_CONTENT_LENGTH \<and>
       (req_audio req = None \<or> (\<exists>d. req_audio req = Some ([], d)) \<or>
        form_format req \<notin> set [''mp3'', ''wav'']))) \<and>
   (status (fst (upload_audio e req st)) = 400 \<longrightarrow>
      (\<exists>m. fst (upload_audio e req st) = JsonResponse (ErrorJson m) 400) \<and>
      files (snd (upload_audio e req st)) = files st) \<and>
   (check_ffmpeg e = Inr True \<longrightarrow> req_content_length req \<le> MAX_CONTENT_LENGTH \<longrightarrow>
      (\<forall>n d. req_audio req = Some (n, d) \<longrightarrow> n \<noteq> [] \<longrightarrow>
         form_format req \<notin> set [''mp3'', ''wav''] \<longrightarrow>
         fst (upload_audio e req st) =
           JsonResponse (ErrorJson ''Invalid format. Use mp3 or wav'') 400 \<and>
         files (snd (upload_audio e req st)) = files st)) \<and>
   (check_ffmpeg e \<noteq> Inr True \<or> MAX_CONTENT_LENGTH < req_content_length req \<longrightarrow>
      (\<exists>m. fst (upload_audio e req st) = JsonResponse (ErrorJson m) 500) \<and>
      files (snd (upload_audio e req st)) = files st)"
proof -
  have 1: "(status (fst (upload_audio e req st)) = 400) =
      (check_ffmpeg e = Inr True \<and> req_content_length req \<le> MAX_CONTENT_LENGTH \<and>
       (req_audio req = None \<or> (\<exists>d. req_audio req = Some ([], d)) \<or>
        form_format req \<notin> set [''mp3'', ''wav'']))"
    by (rule upload_status_400)
  have 3: "check_ffmpeg e = Inr True \<longrightarrow> req_content_length req \<le> MAX_CONTENT_LENGTH \<longrightarrow>
      (\<forall>n d. req_audio req = Some (n, d) \<longrightarrow> n \<noteq> [] \<longrightarrow>
         form_format req \<notin> set [''mp3'', ''wav''] \<longrightarrow>
         fst (upload_audio e req st) =
           JsonResponse (ErrorJson ''Invalid format. Use mp3 or wav'') 400 \<and>
         files (snd (upload_audio e req st)) = files st)"
  proof (intro impI allI)
    fix n d
    assume "check_ffmpeg e = Inr True" and "req_content_length req \<le> MAX_CONTENT_LENGTH"
    then have p: "request_read e req" by (simp add: request_read_def)
    assume "req_audio req = Some (n, d)" and "n \<noteq> []"
      and "form_format req \<notin> set [''mp3'', ''wav'']"
    then show "fst (upload_audio e req st) =
           JsonResponse (ErrorJson ''Invalid format. Use mp3 or wav'') 400 \<and>
         files (snd (upload_audio e req st)) = files st"
      using upload_audio_bad_format[OF p, of n d st] by simp
  qed
  have 2: "status (fst (upload_audio e req st)) = 400 \<longrightarrow>
      (\<exists>m. fst (upload_audio e req st) = JsonResponse (ErrorJson m) 400) \<and>
      files (snd (upload_audio e req st)) = files st"
  proof
    assume s: "status (fst (upload_audio e req st)) = 400"
    with 1 have p: "request_read e req" by (simp add: request_read_def)
    from s 1 consider "req_audio req = None" | d where "req_audio req = Some ([], d)"
      | n d where "req_audio req = Some (n, d)" "n \<noteq> []" "form_format req \<notin> set [''mp3'', ''wav'']"
      by (cases "req_audio req") auto
    then show "(\<exists>m. fst (upload_audio e req st) = JsonResponse (ErrorJson m) 400) \<and>
      files (snd (upload_audio e req st)) = files st"
    proof cases
      case 1
      then show ?thesis using upload_audio_no_audio[OF p] by simp
    next
      case 2
      then show ?thesis using upload_audio_no_name[OF p] by simp
    next
      case 3
      then show ?thesis using upload_audio_bad_format[OF p] by simp
    qed
  qed
  have 4: "check_ffmpeg e \<noteq> Inr True \<or> MAX_CONTENT_LENGTH < req_content_length req \<longrightarrow>
      (\<exists>m. fst (upload_audio e req st) = JsonResponse (ErrorJson m) 500) \<and>
      files (snd (upload_audio e req st)) = files st"
  proof
    assume g: "check_ffmpeg e \<noteq> Inr True \<or> MAX_CONTENT_LENGTH < req_content_length req"
    show "(\<exists>m. fst (upload_audio e req st) = JsonResponse (ErrorJson m) 500) \<and>
      files (snd (upload_audio e req st)) = files st"
    proof (cases "check_ffmpeg e = Inr True")
      case False
      then show ?thesis using upload_audio_probe_fail[of e req st] by simp
    next
      case True
      with g have "MAX_CONTENT_LENGTH < req_content_length req" by simp
      with True show ?thesis using upload_audio_too_large[of e req st] by simp
    qed
  qed
  from 1 2 3 4 show ?thesis by blast
qed

text \<open>
  A request for the format \<^verbatim>\<open>ogg\<close>, and a request whose body is over the limit.
\<close>

theorem upload_400_iff_witness:
  "status (fst (upload_audio env_ok req_ogg st_empty)) = 400 \<and>
   fst (upload_audio env_ok req_ogg st_empty) =
     JsonResponse (ErrorJson ''Invalid format. Use mp3 or wav'') 400 \<and>
   files (snd (upload_audio env_ok req_ogg st_empty)) = Map.empty \<and>
   (\<exists>m. fst (upload_audio env_ok req_oversize st_empty) = JsonResponse (ErrorJson m) 500)"
proof -
  have p: "check_ffmpeg env_ok = Inr True" by (rule check_ffmpeg_ok) simp
  have s: "req_content_length req_ogg \<le> MAX_CONTENT_LENGTH" by simp
  have a: "req_audio req_ogg = Some (''blob'', ''webmdata'')" by (simp add: req_ogg_def)
  have f: "form_format req_ogg \<notin> set [''mp3'', ''wav'']" by (simp add: form_format_ogg)
  have fe: "files st_empty = Map.empty" by (simp add: st_empty_def)
  note t = upload_400_iff[of env_ok req_ogg st_empty]
  from t[THEN conjunct2, THEN conjunct2, THEN conjunct1, rule_format, OF p s a _ f]
  have 1: "fst (upload_audio env_ok req_ogg st_empty) =
          JsonResponse (ErrorJson ''Invalid format. Use mp3 or wav'') 400 \<and>
        files (snd (upload_audio env_ok req_ogg st_empty)) = files st_empty"
    by simp
  have g: "check_ffmpeg env_ok \<noteq> Inr True \<or> MAX_CONTENT_LENGTH < req_content_length req_oversize"
    by simp
  note u = upload_400_iff[of env_ok req_oversize st_empty]
  from u[THEN conjunct2, THEN conjunct2, THEN conjunct2, rule_format, OF g]
  have 2: "\<exists>m. fst (upload_audio env_ok req_oversize st_empty) = JsonResponse (ErrorJson m) 500"
    by simp
  from 1 2 show ?thesis by (simp add: fe status_def)
qed

text \<open>
  The claim as the specification states it (400 whenever the part is missing) fails twice:
  when the transcoder is not installed, line 99 answers 500 before the request is looked at;
  and when the body is over the limit, the read of \<^verbatim>\<open>request.files\<close> raises and line 168
  answers 500.
\<close>

theorem upload_400_cex:
  "req_audio req_no_audio = None \<and>
   fst (upload_audio env_absent req_no_audio st_empty) =
     JsonResponse (ErrorJson ''FFmpeg is not installed on the server. Please install FFmpeg.'') 500 \<and>
   req_audio req_oversize = None \<and>
   fst (upload_audio env_ok req_oversize st_empty) =
     JsonResponse (ErrorJson
       (''Server error: '' @
        ''413 Request Entity Too Large: The data value transmitted exceeds the capacity limit.''))
       500"
proof -
  have p: "check_ffmpeg env_ok = Inr True" by (rule check_ffmpeg_ok) simp
  have x: "str_exn env_ok RequestEntityTooLarge =
     ''413 Request Entity Too Large: The data value transmitted exceeds the capacity limit.''"
    by (simp add: env_ok_def)
  have 1: "fst (upload_audio env_ok req_oversize st_empty) =
     JsonResponse (ErrorJson (''Server error: '' @ str_exn env_ok RequestEntityTooLarge)) 500"
    using upload_audio_too_large[OF p, of req_oversize st_empty] by simp
  have a0: "req_audio req_no_audio = None" by (simp add: req_no_audio_def)
  have a1: "req_audio req_oversize = None" by (simp add: req_oversize_def req_no_audio_def)
  have 0: "fst (upload_audio env_absent req_no_audio st_empty) =
     JsonResponse (ErrorJson ''FFmpeg is not installed on the server. Please install FFmpeg.'') 500"
    by (rule upload_audio_absent[OF check_ffmpeg_absent])
  from a0 0 a1 1[unfolded x] show ?thesis by (intro conjI)
qed

subsection \<open>Removing a file twice\<close>

text \<open>
  Claim C9. The removal of the stored input (lines 139 to 144) and the body of the deletion
  thread (lines 190 to 197) return a state, whatever the path: no exception leaves them.
  Run a second time, each leaves the files and the pending threads as the first run left
  them. The second removal of the input prints one line, the error of the failed removal;
  the second run of the deletion thread prints nothing for a file (a line only when the
  path is the scratch directory itself, which no removal can delete).
\<close>

theorem release_idempotent:
  "files (cleanup_input e p (cleanup_input e p st)) = files (cleanup_input e p st) \<and>
   timers (cleanup_input e p (cleanup_input e p st)) = timers (cleanup_input e p st) \<and>
   printed (cleanup_input e p (cleanup_input e p st)) =
     printed (cleanup_input e p st) @
       [''Error cleaning up input file: '' @
          str_exn e (if is_scratch_dir p then IsADirectoryError p else FileNotFoundError p)] \<and>
   files (delete_after_delay e p f (delete_after_delay e p f st)) =
     files (delete_after_delay e p f st) \<and>
   timers (delete_after_delay e p f (delete_after_delay e p f st)) =
     timers (delete_after_delay e p f st) \<and>
   printed (delete_after_delay e p f (delete_after_delay e p f st)) =
     printed (delete_after_delay e p f st) @
       (if is_scratch_dir p then [''Error deleting file: '' @ str_exn e (IsADirectoryError p)]
        else [])"
  by (auto simp: cleanup_input_def delete_after_delay_def os_remove_def os_path_exists_def
      split: option.splits)

subsection \<open>The quality field\<close>

text \<open>
  Claim C10. The field \<^verbatim>\<open>quality\<close> is not validated. Replacing it by any value never changes
  whether the response has status 400. For a valid request for \<^verbatim>\<open>mp3\<close>, the command run has
  the submitted text followed by \<^verbatim>\<open>k\<close> as its bitrate argument and the response is the one
  that run determines; a success response has the submitted text followed by \<^verbatim>\<open> kbps\<close> as
  its quality, and the status is 200 or 500.
\<close>

theorem quality_not_validated:
  "((status (fst (upload_audio e (req\<lparr>req_quality := q\<rparr>) st)) = 400) =
      (status (fst (upload_audio e req st)) = 400)) \<and>
   (valid_upload e req \<longrightarrow> form_format req = ''mp3'' \<longrightarrow> req_audio req = Some (n, d) \<longrightarrow>
      (case subprocess_run e
              [''ffmpeg'', ''-i'', temp_input_path e,
               ''-codec:a'', ''libmp3lame'',
               ''-b:a'', form_quality req @ ''k'',
               ''-ar'', ''44100'', ''-ac'', ''2'', ''-y'',
               os_path_join UPLOAD_FOLDER (output_name e ''mp3'')]
              ((files st)(temp_input_path e \<mapsto> d)) of
         (res, fs') \<Rightarrow> fst (upload_audio e req st) = run_response e req res fs') \<and>
      (\<forall>rd. fst (upload_audio e req st) = JsonResponse (DataJson rd) 200 \<longrightarrow>
            r_quality rd = form_quality req @ '' kbps'') \<and>
      (status (fst (upload_audio e req st)) = 200 \<or> status (fst (upload_audio e req st)) = 500))"
proof (intro conjI impI)
  show "(status (fst (upload_audio e (req\<lparr>req_quality := q\<rparr>) st)) = 400) =
      (status (fst (upload_audio e req st)) = 400)"
    by (simp add: upload_status_400 form_format_def)
next
  assume v: "valid_upload e req" and m: "form_format req = ''mp3''" and a: "req_audio req = Some (n, d)"
  let ?cmd = "[''ffmpeg'', ''-i'', temp_input_path e,
               ''-codec:a'', ''libmp3lame'',
               ''-b:a'', form_quality req @ ''k'',
               ''-ar'', ''44100'', ''-ac'', ''2'', ''-y'',
               os_path_join UPLOAD_FOLDER (output_name e ''mp3'')]"
  from v a have p: "request_read e req" and n: "n \<noteq> []"
    and f: "form_format req \<in> set [''mp3'', ''wav'']"
    by (auto simp: valid_upload_def request_read_def)
  have c: "ffmpeg_cmd (temp_input_path e) (os_path_join UPLOAD_FOLDER (output_name e (form_format req)))
             (form_format req) (form_quality req) = Some ?cmd"
    by (simp add: m ffmpeg_cmd_def)
  obtain res fs' where r: "subprocess_run e ?cmd ((files st)(temp_input_path e \<mapsto> d)) = (res, fs')"
    by (cases "subprocess_run e ?cmd ((files st)(temp_input_path e \<mapsto> d))")
  note h = upload_audio_valid(3)[OF p a n f c r]
  show "case subprocess_run e ?cmd ((files st)(temp_input_path e \<mapsto> d)) of
         (res, fs') \<Rightarrow> fst (upload_audio e req st) = run_response e req res fs'"
    by (simp add: r h)
  show "\<forall>rd. fst (upload_audio e req st) = JsonResponse (DataJson rd) 200 \<longrightarrow>
            r_quality rd = form_quality req @ '' kbps''"
    by (auto simp: h run_response_def success_data_def m split: run_result.splits option.splits if_splits)
  show "status (fst (upload_audio e req st)) = 200 \<or> status (fst (upload_audio e req st)) = 500"
    using status_run_response[of e req res fs'] by (simp add: h)
qed

text \<open>
  A quality that is not a number, rejected by the transcoder.
\<close>

theorem quality_not_validated_witness:
  "fst (upload_audio env_bitrate req_high st_empty) =
     JsonResponse (ErrorJson
       ''Conversion failed: FFmpeg error: Error setting option b to value highk.'') 500"
proof -
  have e: "ffmpeg_version env_bitrate = CompletedProcess 0 ''ffmpeg version 6.0'' []"
    "uuid4 env_bitrate = ''1b9d6bcd-bbfd-4b2d-9b5d-ab8dfbbd4bed''"
    "now env_bitrate = ''20240101_120000''"
    "\<And>cmd fs. subprocess_run env_bitrate cmd fs =
       (CompletedProcess 1 [] ''Error setting option b to value highk.'', fs)"
    by (simp_all add: env_bitrate_def env_ok_def)
  have q: "req_audio req_high = Some (''blob'', ''webmdata'')" "form_format req_high = ''mp3''"
    "form_quality req_high = ''high''"
    by (simp_all add: req_high_def form_format_def form_quality_def)
  have v: "valid_upload env_bitrate req_high"
    by (simp add: valid_upload_def check_ffmpeg_ok[OF e(1)] q)
  have o: "os_path_join UPLOAD_FOLDER (output_name env_bitrate ''mp3'') \<noteq> temp_input_path env_bitrate"
    using output_neq_temp(1)[of env_bitrate "''mp3''"] .
  from quality_not_validated[where e = env_bitrate and req = req_high and q = "Some ''high''"
        and st = st_empty and n = "''blob''" and d = "''webmdata''",
      THEN conjunct2, rule_format, OF v q(2) q(1), THEN conjunct1]
  show ?thesis
    using o by (simp add: e(4) run_response_def q st_empty_def)
qed

end
